theory Spec2Isabelle
  imports Complex_Main
begin

section \<open>Data model (types.ts)\<close>

text \<open>
  JavaScript numbers are modelled as reals throughout: the rounding of IEEE doubles is
  not part of the model. Objects are records, enums are datatypes, a value that may be
  \<^verbatim>\<open>null\<close> is an option, and a thrown exception is the left summand of a sum.
\<close>

datatype AppState = IDLE | LOADING | READY | RUNNING | ERROR

datatype TreeState = CHAOS | FORMED

record HandGesture =
  isOpen :: bool
  position :: "real \<times> real"
  detected :: bool

section \<open>The vision service (services/vision.ts)\<close>

text \<open>A landmark of the hand-landmark model: normalised coordinates.\<close>

record Landmark =
  lm_x :: real
  lm_y :: real
  lm_z :: real

text \<open>The fields of the video element that \<^verbatim>\<open>detect\<close> reads.\<close>

record HTMLVideoElement =
  videoWidth :: nat
  videoHeight :: nat
  currentTime :: real

text \<open>
  The service object. \<open>handLandmarker\<close> is \<open>True\<close> once the landmarker has been
  created (the field is \<^verbatim>\<open>null\<close> before).
\<close>

record VisionService =
  handLandmarker :: bool
  video :: "HTMLVideoElement option"
  lastVideoTime :: real
  isRunning :: bool

definition visionService :: VisionService where
  "visionService =
     \<lparr>handLandmarker = False, video = None, lastVideoTime = - 1, isRunning = False\<rparr>"

text \<open>
  What \<^verbatim>\<open>handLandmarker.detectForVideo\<close> does on the current frame: it throws, or it
  returns a result whose \<^verbatim>\<open>landmarks\<close> field is missing (\<open>None\<close>) or holds one landmark
  list per detected hand.
\<close>

datatype inference = Throws | Results "Landmark list list option"

datatype js_error = TypeError | InferenceError

text \<open>The object \<^verbatim>\<open>{ isOpen, x, y, detected }\<close> that \<^verbatim>\<open>detect\<close> returns.\<close>

record DetectResult =
  res_isOpen :: bool
  res_x :: real
  res_y :: real
  res_detected :: bool

definition tips :: "nat list" where
  "tips = [4, 8, 12, 16, 20]"

text \<open>The distance computed in the body of \<^verbatim>\<open>tips.forEach\<close>.\<close>

definition tipDist :: "Landmark \<Rightarrow> Landmark \<Rightarrow> real" where
  "tipDist tip wrist = sqrt ((lm_x tip - lm_x wrist)\<^sup>2 + (lm_y tip - lm_y wrist)\<^sup>2)"

text \<open>
  \<^verbatim>\<open>tips.forEach(idx => { ...; totalDist += dist })\<close>. Reading \<^verbatim>\<open>landmarks[idx]\<close> out of
  range gives \<^verbatim>\<open>undefined\<close>, and \<^verbatim>\<open>tip.x\<close> then throws a TypeError.
\<close>

fun tipsForEach :: "Landmark list \<Rightarrow> nat list \<Rightarrow> real \<Rightarrow> js_error + real" where
  "tipsForEach landmarks [] totalDist = Inr totalDist"
| "tipsForEach landmarks (idx # rest) totalDist =
     (if idx < length landmarks
      then tipsForEach landmarks rest
             (totalDist + tipDist (landmarks ! idx) (landmarks ! 0))
      else Inl TypeError)"

text \<open>The branch of \<^verbatim>\<open>detect\<close> taken when a hand was found (first hand only).\<close>

definition classifyHand :: "Landmark list \<Rightarrow> js_error + DetectResult" where
  "classifyHand landmarks =
     (case tipsForEach landmarks tips 0 of
        Inl e \<Rightarrow> Inl e
      | Inr totalDist \<Rightarrow>
          (let avgDist = totalDist / real (length tips);
               handOpen = (avgDist > 0.25);
               sumX = fold (\<lambda>l s. s + lm_x l) landmarks 0;
               sumY = fold (\<lambda>l s. s + lm_y l) landmarks 0;
               normX = - ((sumX / real (length landmarks)) - 0.5) * 2;
               normY = - ((sumY / real (length landmarks)) - 0.5) * 2
           in Inr \<lparr>res_isOpen = handOpen, res_x = normX, res_y = normY, res_detected = True\<rparr>))"

text \<open>The body of the \<^verbatim>\<open>try\<close> block of \<^verbatim>\<open>detect\<close>.\<close>

definition detectTry :: "inference \<Rightarrow> js_error + DetectResult" where
  "detectTry outcome =
     (case outcome of
        Throws \<Rightarrow> Inl InferenceError
      | Results None \<Rightarrow>
          Inr \<lparr>res_isOpen = False, res_x = 0, res_y = 0, res_detected = False\<rparr>
      | Results (Some []) \<Rightarrow>
          Inr \<lparr>res_isOpen = False, res_x = 0, res_y = 0, res_detected = False\<rparr>
      | Results (Some (landmarks # others)) \<Rightarrow> classifyHand landmarks)"

text \<open>
  \<^verbatim>\<open>detect()\<close>: the result (\<open>None\<close> is \<^verbatim>\<open>null\<close>) and the service afterwards. The
  \<^verbatim>\<open>catch\<close> turns every exception of the \<^verbatim>\<open>try\<close> block into \<^verbatim>\<open>null\<close>.
\<close>

definition detect :: "VisionService \<Rightarrow> inference \<Rightarrow> DetectResult option \<times> VisionService" where
  "detect this outcome =
     (case video this of
        None \<Rightarrow> (None, this)
      | Some v \<Rightarrow>
          if \<not> handLandmarker this \<or> \<not> isRunning this then (None, this)
          else if videoWidth v = 0 \<or> videoHeight v = 0 then (None, this)
          else if currentTime v \<noteq> lastVideoTime this then
            (case detectTry outcome of
               Inl e \<Rightarrow> (None, this\<lparr>lastVideoTime := currentTime v\<rparr>)
             | Inr r \<Rightarrow> (Some r, this\<lparr>lastVideoTime := currentTime v\<rparr>))
          else (None, this))"

section \<open>The application (App.tsx)\<close>

record App =
  appState :: AppState
  treeState :: TreeState
  gesture :: "HandGesture option"
  errorMsg :: string

definition App_init :: App where
  "App_init = \<lparr>appState = IDLE, treeState = CHAOS, gesture = None, errorMsg = []\<rparr>"

text \<open>What \<^verbatim>\<open>loop\<close> does with the result of \<^verbatim>\<open>detect\<close>: the statement \<^verbatim>\<open>if (result) {...}\<close>.\<close>

definition handleResult :: "DetectResult option \<Rightarrow> App \<Rightarrow> App" where
  "handleResult result app =
     (case result of
        None \<Rightarrow> app
      | Some r \<Rightarrow>
          (let app1 = app\<lparr>gesture := Some \<lparr>isOpen = res_isOpen r,
                                             position = (res_x r, res_y r),
                                             detected = res_detected r\<rparr>\<rparr>
           in if res_detected r
              then (if res_isOpen r then app1\<lparr>treeState := CHAOS\<rparr>
                    else app1\<lparr>treeState := FORMED\<rparr>)
              else app1))"

text \<open>
  One run of \<^verbatim>\<open>loop\<close>: the application and the service afterwards, and whether the next
  run was scheduled with \<^verbatim>\<open>requestAnimationFrame\<close>.
\<close>

definition loop :: "inference \<Rightarrow> App \<Rightarrow> VisionService \<Rightarrow> App \<times> VisionService \<times> bool" where
  "loop outcome app vs =
     (if isRunning vs
      then (case detect vs outcome of (result, vs') \<Rightarrow> (handleResult result app, vs', True))
      else (app, vs, False))"

subsection \<open>Starting the experience\<close>

text \<open>
  A thrown value, as the \<^verbatim>\<open>catch\<close> of \<^verbatim>\<open>startExperience\<close> reads it: its \<^verbatim>\<open>name\<close> and
  \<^verbatim>\<open>message\<close> properties, \<open>None\<close> when the value has no such property.
\<close>

record Thrown =
  err_name :: "string option"
  err_message :: "string option"

text \<open>
  \<^verbatim>\<open>initialize()\<close> and \<^verbatim>\<open>startCamera(videoElement)\<close> of the vision service. Their first
  argument is what the browser and the model loader do: \<open>None\<close> when every awaited call
  resolves, \<open>Some e\<close> when one of them rejects with \<open>e\<close>. \<^verbatim>\<open>startCamera\<close> stores the
  video element before it awaits anything and rethrows what it catches.
\<close>

definition initialize :: "Thrown option \<Rightarrow> VisionService \<Rightarrow> Thrown + VisionService" where
  "initialize rejects this =
     (case rejects of
        Some e \<Rightarrow> Inl e
      | None \<Rightarrow> Inr (this\<lparr>handLandmarker := True\<rparr>))"

definition startCamera ::
  "Thrown option \<Rightarrow> HTMLVideoElement \<Rightarrow> VisionService \<Rightarrow> Thrown option \<times> VisionService" where
  "startCamera rejects videoElement this =
     (let this1 = this\<lparr>video := Some videoElement\<rparr>
      in case rejects of
           Some e \<Rightarrow> (Some e, this1)
         | None \<Rightarrow> (None, this1\<lparr>isRunning := True\<rparr>))"

definition stop :: "VisionService \<Rightarrow> VisionService" where
  "stop this = this\<lparr>isRunning := False\<rparr>"

text \<open>The environment of one call of \<^verbatim>\<open>startExperience\<close>.\<close>

record StartEnv =
  hasGetUserMedia :: bool
  initializeRejects :: "Thrown option"
  videoRefCurrent :: "HTMLVideoElement option"
  startCameraRejects :: "Thrown option"
  firstFrame :: inference

text \<open>The calls \<^verbatim>\<open>startExperience\<close> makes, in order.\<close>

datatype call = CallInitialize | CallStartCamera | CallLoop

definition cameraRelated :: "Thrown \<Rightarrow> bool" where
  "cameraRelated e =
     (let errName = (case err_name e of None \<Rightarrow> [] | Some n \<Rightarrow> n)
      in errName = ''NotFoundError'' \<or>
         errName = ''NotAllowedError'' \<or>
         errName = ''NotReadableError'' \<or>
         errName = ''OverconstrainedError'' \<or>
         errName = ''SecurityError'')"

definition defaultErrorMsg :: string where
  "defaultErrorMsg = ''Failed to start camera or load AI models.''"

text \<open>The \<^verbatim>\<open>catch\<close> block of \<^verbatim>\<open>startExperience\<close>.\<close>

definition startExperienceCatch :: "Thrown \<Rightarrow> App \<Rightarrow> App" where
  "startExperienceCatch e app =
     (if cameraRelated e then app\<lparr>appState := RUNNING\<rparr>
      else app\<lparr>errorMsg := (case err_message e of
                               None \<Rightarrow> defaultErrorMsg
                             | Some m \<Rightarrow> if m = [] then defaultErrorMsg else m),
               appState := ERROR\<rparr>)"

definition startExperience ::
  "StartEnv \<Rightarrow> App \<Rightarrow> VisionService \<Rightarrow> App \<times> VisionService \<times> call list" where
  "startExperience env app vs =
     (let app1 = app\<lparr>appState := LOADING, errorMsg := []\<rparr>
      in if \<not> hasGetUserMedia env then (app1\<lparr>appState := RUNNING\<rparr>, vs, [])
         else
           (case initialize (initializeRejects env) vs of
              Inl e \<Rightarrow> (startExperienceCatch e app1, vs, [CallInitialize])
            | Inr vs1 \<Rightarrow>
                (case videoRefCurrent env of
                   None \<Rightarrow>
                     (case loop (firstFrame env) (app1\<lparr>appState := RUNNING\<rparr>) vs1 of
                        (app2, vs2, scheduled) \<Rightarrow> (app2, vs2, [CallInitialize, CallLoop]))
                 | Some videoElement \<Rightarrow>
                     (case startCamera (startCameraRejects env) videoElement vs1 of
                        (Some e, vs2) \<Rightarrow>
                          (startExperienceCatch e app1, vs2, [CallInitialize, CallStartCamera])
                      | (None, vs2) \<Rightarrow>
                          (case loop (firstFrame env) (app1\<lparr>appState := RUNNING\<rparr>) vs2 of
                             (app2, vs3, scheduled) \<Rightarrow>
                               (app2, vs3, [CallInitialize, CallStartCamera, CallLoop]))))))"

text \<open>
  The overlay that \<^verbatim>\<open>App\<close> renders for each application state, with the action behind
  each button.
\<close>

datatype action = StartExperience | Reload | ForceChaos | ForceFormed

datatype overlay =
    StartScreen action
  | LoadingMessage
  | ErrorPanel string action
  | Controls action action
  | NoOverlay

definition renderOverlay :: "App \<Rightarrow> overlay" where
  "renderOverlay app =
     (case appState app of
        IDLE \<Rightarrow> StartScreen StartExperience
      | LOADING \<Rightarrow> LoadingMessage
      | READY \<Rightarrow> NoOverlay
      | RUNNING \<Rightarrow> Controls ForceChaos ForceFormed
      | ERROR \<Rightarrow> ErrorPanel (errorMsg app) Reload)"

section \<open>Point samplers (utils/math.ts)\<close>

text \<open>
  The random source: the stream of the values that the coming calls of
  \<^verbatim>\<open>Math.random()\<close> return. A call takes the head of the stream.
\<close>

type_synonym rng = "nat \<Rightarrow> real"

definition Math_random :: "rng \<Rightarrow> real \<times> rng" where
  "Math_random g = (g 0, \<lambda>n. g (Suc n))"

text \<open>What the platform promises of \<^verbatim>\<open>Math.random()\<close>: every value is in \<open>[0, 1)\<close>.\<close>

definition unit_draws :: "rng \<Rightarrow> bool" where
  "unit_draws g = (\<forall>n. 0 \<le> g n \<and> g n < 1)"

datatype Vector3 = Vector3 (vx: real) (vy: real) (vz: real)

definition treeHeight :: real where
  "treeHeight = 12"

definition treeRadius :: real where
  "treeRadius = 4"

definition getRandomSpherePoint :: "real \<Rightarrow> rng \<Rightarrow> Vector3 \<times> rng" where
  "getRandomSpherePoint radius g =
     (case Math_random g of (u, g1) \<Rightarrow>
      case Math_random g1 of (v, g2) \<Rightarrow>
        (let theta = 2 * pi * u;
             phi = arccos (2 * v - 1)
         in case Math_random g2 of (w, g3) \<Rightarrow>
              (let r = root 3 w * radius;
                   sinPhi = sin phi
               in (Vector3 (r * sinPhi * cos theta) (r * sinPhi * sin theta) (r * cos phi),
                   g3))))"

definition getConePoint :: "real \<Rightarrow> real \<Rightarrow> real \<Rightarrow> rng \<Rightarrow> Vector3 \<times> rng" where
  "getConePoint height maxRadius verticalBias g =
     (case Math_random g of (u1, g1) \<Rightarrow>
        (let y = u1 * height;
             rAtY = (1 - y / height) * maxRadius
         in case Math_random g1 of (u2, g2) \<Rightarrow>
              (let angle = u2 * pi * 2
               in case Math_random g2 of (u3, g3) \<Rightarrow>
                    (let r = sqrt u3 * rAtY
                     in (Vector3 (r * cos angle) (y - height / 2 + verticalBias) (r * sin angle),
                         g3)))))"

text \<open>The Euclidean norm of a point, and its distance from the vertical axis.\<close>

definition norm3 :: "Vector3 \<Rightarrow> real" where
  "norm3 p = sqrt ((vx p)\<^sup>2 + (vy p)\<^sup>2 + (vz p)\<^sup>2)"

definition axisDist :: "Vector3 \<Rightarrow> real" where
  "axisDist p = sqrt ((vx p)\<^sup>2 + (vz p)\<^sup>2)"

section \<open>Animators (components)\<close>

text \<open>
  Three functions of the rendering library, as its documentation defines them:
  \<^verbatim>\<open>Vector3.lerpVectors\<close>, \<^verbatim>\<open>MathUtils.lerp\<close> and \<^verbatim>\<open>MathUtils.clamp\<close>.
\<close>

definition lerpVectors :: "Vector3 \<Rightarrow> Vector3 \<Rightarrow> real \<Rightarrow> Vector3" where
  "lerpVectors v1 v2 alpha =
     Vector3 (vx v1 + (vx v2 - vx v1) * alpha)
             (vy v1 + (vy v2 - vy v1) * alpha)
             (vz v1 + (vz v2 - vz v1) * alpha)"

definition MathUtils_lerp :: "real \<Rightarrow> real \<Rightarrow> real \<Rightarrow> real" where
  "MathUtils_lerp x y t = (1 - t) * x + t * y"

definition MathUtils_clamp :: "real \<Rightarrow> real \<Rightarrow> real \<Rightarrow> real" where
  "MathUtils_clamp v lo hi = max lo (min hi v)"

text \<open>
  The frame callbacks below are the ones registered with \<^verbatim>\<open>useFrame\<close>. A callback
  that starts with \<^verbatim>\<open>if (!ref.current) return\<close> does nothing before its object is mounted;
  where the object is an argument, \<open>None\<close> is the unmounted case.
\<close>

subsection \<open>Foliage\<close>

text \<open>The new value of the uniform \<^verbatim>\<open>uProgress\<close> after one frame of the mounted material.\<close>

definition Foliage_useFrame :: "TreeState \<Rightarrow> real \<Rightarrow> real" where
  "Foliage_useFrame state uProgress =
     (let targetProgress = (if state = FORMED then 1 else 0)
      in MathUtils_lerp uProgress targetProgress 0.02)"

subsection \<open>Ornaments\<close>

datatype ornament_type = OrnBall | OrnGift

definition ornamentCount :: "ornament_type \<Rightarrow> nat" where
  "ornamentCount ty = (if ty = OrnBall then 50 else 30)"

definition ornamentSpeed :: "ornament_type \<Rightarrow> real" where
  "ornamentSpeed ty = (if ty = OrnBall then 0.025 else 0.015)"

text \<open>
  The positions computed once by \<^verbatim>\<open>useMemo\<close>: one chaos and one target position per
  instance (the rotations do not enter a position and are left out).
\<close>

record OrnamentsData =
  chaosPos :: "Vector3 list"
  targetPos :: "Vector3 list"

text \<open>
  The property \<^verbatim>\<open>userData.progress\<close> of every mesh object, by object identity; \<open>None\<close> is
  \<^verbatim>\<open>undefined\<close>.
\<close>

type_synonym userData = "nat \<Rightarrow> real option"

text \<open>
  The body of the \<^verbatim>\<open>for\<close> loop over the instances, for instance \<open>i\<close>: the position
  written to the instance matrix, and \<^verbatim>\<open>userData.progress\<close> of the mesh afterwards.
\<close>

definition Ornaments_body ::
  "real \<Rightarrow> bool \<Rightarrow> real \<Rightarrow> OrnamentsData \<Rightarrow> nat \<Rightarrow> real option \<Rightarrow> Vector3 \<times> real option" where
  "Ornaments_body speed isForming time ornData i progress =
     (let chaos = chaosPos ornData ! i;
          target = targetPos ornData ! i;
          targetVec = (if isForming
                       then Vector3 (vx target) (vy target + sin (time * 2 + real i) * 0.1) (vz target)
                       else target);
          chaosVec = (if isForming then chaos
                      else Vector3 (vx chaos + sin (time + real i) * 0.05)
                                   (vy chaos + cos (time + real i) * 0.05) (vz chaos));
          progress0 = (case progress of None \<Rightarrow> 0 | Some q \<Rightarrow> q);
          dest = (if isForming then 1 else 0);
          progress1 = progress0 + (dest - progress0) * speed;
          p = progress1;
          currentPos = lerpVectors chaosVec targetVec p
      in (currentPos, Some progress1))"

fun Ornaments_for ::
  "(nat \<Rightarrow> real option \<Rightarrow> Vector3 \<times> real option) \<Rightarrow> nat list \<Rightarrow> real option
     \<Rightarrow> Vector3 list \<times> real option" where
  "Ornaments_for body [] progress = ([], progress)"
| "Ornaments_for body (i # rest) progress =
     (case body i progress of (currentPos, progress1) \<Rightarrow>
      case Ornaments_for body rest progress1 of (positions, final) \<Rightarrow>
        (currentPos # positions, final))"

definition Ornaments_useFrame ::
  "ornament_type \<Rightarrow> TreeState \<Rightarrow> real \<Rightarrow> OrnamentsData \<Rightarrow> nat option \<Rightarrow> userData
     \<Rightarrow> Vector3 list \<times> userData" where
  "Ornaments_useFrame ty state time ornData meshRef heap =
     (case meshRef of
        None \<Rightarrow> ([], heap)
      | Some mesh \<Rightarrow>
          (case Ornaments_for
                  (Ornaments_body (ornamentSpeed ty) (state = FORMED) time ornData)
                  [0..<ornamentCount ty] (heap mesh) of
             (positions, progress) \<Rightarrow> (positions, heap(mesh := progress))))"

subsection \<open>Topper\<close>

definition Topper_targetPos :: Vector3 where
  "Topper_targetPos = Vector3 0 (treeHeight / 2 + 5.0) 0"

definition Topper_useFrame ::
  "TreeState \<Rightarrow> real \<Rightarrow> Vector3 \<Rightarrow> nat option \<Rightarrow> userData \<Rightarrow> Vector3 option \<times> userData" where
  "Topper_useFrame state time chaos meshRef heap =
     (case meshRef of
        None \<Rightarrow> (None, heap)
      | Some mesh \<Rightarrow>
          (let isForming = (state = FORMED);
               speed = 0.02;
               progress0 = (case heap mesh of None \<Rightarrow> 0 | Some q \<Rightarrow> q);
               dest = (if isForming then 1 else 0);
               progress1 = progress0 + (dest - progress0) * speed;
               p = progress1;
               lerped = lerpVectors chaos Topper_targetPos p;
               currentPos = (if isForming
                             then Vector3 (vx lerped) (vy lerped + sin (time * 1.5) * 0.1) (vz lerped)
                             else lerped)
           in (Some currentPos, heap(mesh := Some progress1))))"

subsection \<open>Photo ornaments\<close>

text \<open>
  A photo as \<^verbatim>\<open>useMemo\<close> builds it. The identifier \<^verbatim>\<open>p<n>\<close> is kept as the number
  \<open>n\<close>; the orientation, which the rendering library computes from the target position
  alone, is left out.
\<close>

record Photo =
  ph_id :: nat
  ph_src :: string
  ph_caption :: string
  ph_baseRotationZ :: real
  ph_targetPos :: Vector3
  ph_chaosPos :: Vector3

text \<open>The value \<^verbatim>\<open>current\<close> of every numeric ref object, by object identity.\<close>

type_synonym refs = "nat \<Rightarrow> real"

text \<open>The frame callback of the group: it writes the one ref made by \<^verbatim>\<open>useRef(0)\<close>.\<close>

definition PolaroidPhotos_useFrame :: "TreeState \<Rightarrow> nat \<Rightarrow> refs \<Rightarrow> refs" where
  "PolaroidPhotos_useFrame state progressRef current =
     (let dest = (if state = FORMED then 1 else 0)
      in current(progressRef := current progressRef + (dest - current progressRef) * 0.02))"

text \<open>The properties the group passes to each \<^verbatim>\<open>PolaroidPhoto\<close> it renders.\<close>

record PolaroidPhotoProps =
  prop_photo :: Photo
  prop_index :: nat
  prop_progressRef :: nat

definition PolaroidPhotos_render :: "Photo list \<Rightarrow> nat \<Rightarrow> PolaroidPhotoProps list option" where
  "PolaroidPhotos_render photos progressRef =
     (if length photos = 0 then None
      else Some (map (\<lambda>(idx, p). \<lparr>prop_photo = p, prop_index = idx,
                                    prop_progressRef = progressRef\<rparr>)
                     (enumerate 0 photos)))"

text \<open>The frame callback of one mounted photo: the position it gives its group object.\<close>

definition PolaroidPhoto_useFrame ::
  "PolaroidPhotoProps \<Rightarrow> TreeState \<Rightarrow> real \<Rightarrow> refs \<Rightarrow> Vector3" where
  "PolaroidPhoto_useFrame props state time current =
     (let p = current (prop_progressRef props);
          idx = real (prop_index props);
          target0 = ph_targetPos (prop_photo props);
          chaos0 = ph_chaosPos (prop_photo props);
          target = (if state = FORMED
                    then Vector3 (vx target0 + cos (time * 1.2 + idx) * 0.04)
                                 (vy target0 + sin (time * 1.6 + idx) * 0.08) (vz target0)
                    else target0);
          chaos = (if state = FORMED then chaos0
                   else Vector3 (vx chaos0 + sin (time + idx) * 0.1)
                                (vy chaos0 + cos (time + idx) * 0.1) (vz chaos0))
      in lerpVectors chaos target p)"

subsection \<open>Loading the photos\<close>

text \<open>
  A JSON value, as \<^verbatim>\<open>res.json()\<close> gives it. The type the code casts it to is erased at run
  time: the entries of an array can be any value.
\<close>

datatype json =
    JNull
  | JBool bool
  | JNumber real
  | JString string
  | JArray "json list"
  | JObject "(string \<times> json) list"

text \<open>
  A fetch rejects, or gives a response with its \<^verbatim>\<open>ok\<close> flag and the outcome of
  \<^verbatim>\<open>res.json()\<close> (\<open>None\<close> when the body is not JSON and the call rejects).
\<close>

datatype fetch_outcome = FetchRejects | Response bool "json option"

text \<open>
  \<^verbatim>\<open>Array.isArray(json) ? json : json.files\<close>: reading a property of \<^verbatim>\<open>null\<close> throws, a
  value without the property gives \<^verbatim>\<open>undefined\<close> (\<open>None\<close>); of a key written twice the
  parser keeps the last.
\<close>

definition manifestList :: "json \<Rightarrow> js_error + json option" where
  "manifestList j =
     (case j of
        JArray entries \<Rightarrow> Inr (Some (JArray entries))
      | JNull \<Rightarrow> Inl TypeError
      | JObject members \<Rightarrow> Inr (map_of (rev members) ''files'')
      | JBool b \<Rightarrow> Inr None
      | JNumber n \<Rightarrow> Inr None
      | JString s \<Rightarrow> Inr None)"

text \<open>
  The first effect: the value given to \<^verbatim>\<open>setFiles\<close>. Everything thrown inside its
  \<^verbatim>\<open>try\<close> block ends in \<^verbatim>\<open>setFiles([])\<close>.
\<close>

definition loadManifest :: "fetch_outcome \<Rightarrow> json list" where
  "loadManifest outcome =
     (case outcome of
        FetchRejects \<Rightarrow> []
      | Response ok body \<Rightarrow>
          if \<not> ok then []
          else (case body of
                  None \<Rightarrow> []
                | Some j \<Rightarrow>
                    (case manifestList j of
                       Inl e \<Rightarrow> []
                     | Inr (Some (JArray entries)) \<Rightarrow> entries
                     | Inr other \<Rightarrow> [])))"

text \<open>\<^verbatim>\<open>fileName.replace(/\.[^.]+$/, '')\<close>: a last extension, if there is one, is cut off.\<close>

definition stripExtension :: "string \<Rightarrow> string" where
  "stripExtension fileName =
     (let ext = takeWhile (\<lambda>c. c \<noteq> CHR ''.'') (rev fileName);
          before = dropWhile (\<lambda>c. c \<noteq> CHR ''.'') (rev fileName)
      in if before = [] \<or> ext = [] then fileName else rev (tl before))"

record Item =
  item_id :: nat
  item_src :: string
  item_caption :: string

text \<open>
  The second effect, which has no \<^verbatim>\<open>try\<close> block. \<^verbatim>\<open>files.map\<close> calls \<^verbatim>\<open>fileName.replace\<close> on
  every entry, from index \<open>idx\<close> on: an entry that is not a string has no such method (or
  is \<^verbatim>\<open>null\<close>), and the call throws a TypeError that nothing catches. \<open>resolveURL\<close> is the
  browser's resolution of a relative reference against the document's base.
\<close>

fun candidatesFrom :: "(string \<Rightarrow> string) \<Rightarrow> nat \<Rightarrow> json list \<Rightarrow> js_error + Item list" where
  "candidatesFrom resolveURL idx [] = Inr []"
| "candidatesFrom resolveURL idx (JString fileName # rest) =
     (case candidatesFrom resolveURL (Suc idx) rest of
        Inl e \<Rightarrow> Inl e
      | Inr cs \<Rightarrow>
          Inr (\<lparr>item_id = idx + 1,
                item_src = resolveURL (''./figs-jpeg/'' @ fileName),
                item_caption = stripExtension fileName\<rparr> # cs))"
| "candidatesFrom resolveURL idx (other # rest) = Inl TypeError"

definition candidates :: "(string \<Rightarrow> string) \<Rightarrow> json list \<Rightarrow> js_error + Item list" where
  "candidates resolveURL files = candidatesFrom resolveURL 0 files"

text \<open>
  The images are then loaded: \<open>imageLoads\<close> tells for each candidate whether its image
  fires \<^verbatim>\<open>onload\<close> (or else \<^verbatim>\<open>onerror\<close>). The result is the value given to \<^verbatim>\<open>setItems\<close>.
\<close>

definition preload :: "(Item \<Rightarrow> bool) \<Rightarrow> Item list \<Rightarrow> Item list" where
  "preload imageLoads cs =
     (let loaded = map (\<lambda>c. if imageLoads c then Some c else None) cs
      in map the (filter (\<lambda>l. l \<noteq> None) loaded))"

definition photo_verticalBias :: real where
  "photo_verticalBias = 1"

definition yShift :: real where
  "yShift = 5.0"

definition minY :: real where
  "minY = 1.8"

definition maxY :: real where
  "maxY = treeHeight - 2.8"

definition getConePointAtY :: "real \<Rightarrow> real \<Rightarrow> rng \<Rightarrow> Vector3 \<times> rng" where
  "getConePointAtY yInternal maxRadius g =
     (let y = MathUtils_clamp yInternal 0 treeHeight;
          rAtY = (1 - y / treeHeight) * maxRadius
      in case Math_random g of (u1, g1) \<Rightarrow>
           (let angle = u1 * pi * 2
            in case Math_random g1 of (u2, g2) \<Rightarrow>
                 (let r = sqrt u2 * rAtY
                  in (Vector3 (r * cos angle) (y - treeHeight / 2 + photo_verticalBias)
                              (r * sin angle),
                      g2))))"

text \<open>The internal height the loop picks for photo \<open>i\<close> of \<open>n\<close> from the draw \<open>u\<close>.\<close>

definition photoHeight :: "nat \<Rightarrow> nat \<Rightarrow> real \<Rightarrow> real" where
  "photoHeight n i u =
     (let bandT = (real i + 0.5) / real n;
          jitter = (u - 0.5) * 1.2
      in MathUtils_clamp (minY + (maxY - minY) * bandT + jitter) minY maxY)"

text \<open>
  The step \<^verbatim>\<open>if (dist > 0.001) { ... }\<close> of the loop: a point off the axis is pushed
  outward by a factor drawn from \<open>[1.35, 1.5)\<close>; a point on the axis takes no draw.
\<close>

definition pushOutward :: "Vector3 \<Rightarrow> rng \<Rightarrow> Vector3 \<times> rng" where
  "pushOutward t g =
     (let dist = sqrt (vx t * vx t + vz t * vz t)
      in if dist > 0.001
         then (case Math_random g of (w, g1) \<Rightarrow>
                 (let push = 1.35 + w * 0.15
                  in (Vector3 (vx t * push) (vy t) (vz t * push), g1)))
         else (t, g))"

text \<open>The body of the loop over \<^verbatim>\<open>items\<close>, for item \<open>i\<close> of \<open>n\<close>.\<close>

definition makePhoto :: "nat \<Rightarrow> nat \<Rightarrow> Item \<Rightarrow> rng \<Rightarrow> Photo \<times> rng" where
  "makePhoto n i item g =
     (case Math_random g of (u, g1) \<Rightarrow>
      case getConePointAtY (photoHeight n i u) (treeRadius * 0.9) g1 of (t0, g2) \<Rightarrow>
      case pushOutward (Vector3 (vx t0) (vy t0 + yShift) (vz t0)) g2 of (t, g4) \<Rightarrow>
      case Math_random g4 of (b, g5) \<Rightarrow>
      case getRandomSpherePoint 18 g5 of (chaos, g6) \<Rightarrow>
        (\<lparr>ph_id = item_id item, ph_src = item_src item, ph_caption = item_caption item,
          ph_baseRotationZ = (b - 0.5) * 0.35, ph_targetPos = t, ph_chaosPos = chaos\<rparr>,
         g6))"

fun photosFor :: "nat \<Rightarrow> nat \<Rightarrow> Item list \<Rightarrow> rng \<Rightarrow> Photo list" where
  "photosFor n i [] g = []"
| "photosFor n i (item # rest) g =
     (case makePhoto n i item g of (photo, g1) \<Rightarrow> photo # photosFor n (Suc i) rest g1)"

definition photosMemo :: "Item list \<Rightarrow> rng \<Rightarrow> Photo list" where
  "photosMemo items g = photosFor (length items) 0 items g"

text \<open>
  Both effects and the memo in a row: the photos of a mounted group, or the error that
  the second effect throws.
\<close>

definition PolaroidPhotos_photos ::
  "fetch_outcome \<Rightarrow> (string \<Rightarrow> string) \<Rightarrow> (Item \<Rightarrow> bool) \<Rightarrow> rng \<Rightarrow> js_error + Photo list" where
  "PolaroidPhotos_photos outcome resolveURL imageLoads g =
     (case candidates resolveURL (loadManifest outcome) of
        Inl e \<Rightarrow> Inl e
      | Inr cs \<Rightarrow> Inr (photosMemo (preload imageLoads cs) g))"

text \<open>The height band \<open>k\<close> of \<open>n\<close> equal bands of the range in which photos are hung.\<close>

definition inBand :: "nat \<Rightarrow> nat \<Rightarrow> real \<Rightarrow> bool" where
  "inBand n k y =
     (minY + (maxY - minY) * real k / real n \<le> y \<and>
      y \<le> minY + (maxY - minY) * real (Suc k) / real n)"

section \<open>Notions used in the statements\<close>

text \<open>
  The average distance of the specification: the mean, over the five fingertips 4, 8, 12,
  16 and 20, of the Euclidean distance in the xy-plane from the wrist (landmark 0).
\<close>

definition avgTipDistance :: "Landmark list \<Rightarrow> real" where
  "avgTipDistance lms =
     (\<Sum>i\<leftarrow>[4, 8, 12, 16, 20].
        sqrt ((lm_x (lms ! i) - lm_x (lms ! 0))\<^sup>2 + (lm_y (lms ! i) - lm_y (lms ! 0))\<^sup>2)) / 5"

text \<open>
  Synthetic landmarks: a wrist in the middle of the frame and twenty more landmarks, all
  at distance \<open>d\<close> to its right.
\<close>

definition syntheticHand :: "real \<Rightarrow> Landmark list" where
  "syntheticHand d =
     \<lparr>lm_x = 0.5, lm_y = 0.5, lm_z = 0\<rparr> # replicate 20 \<lparr>lm_x = 0.5 + d, lm_y = 0.5, lm_z = 0\<rparr>"

text \<open>
  A service after \<^verbatim>\<open>initialize\<close> and \<^verbatim>\<open>startCamera\<close>, with a decoded frame that has not been
  processed yet, and an application that holds a reading.
\<close>

definition runningService :: VisionService where
  "runningService =
     \<lparr>handLandmarker = True,
      video = Some \<lparr>videoWidth = 640, videoHeight = 480, currentTime = 1\<rparr>,
      lastVideoTime = 0, isRunning = True\<rparr>"

definition previousApp :: App where
  "previousApp =
     \<lparr>appState = RUNNING, treeState = FORMED,
      gesture = Some \<lparr>isOpen = False, position = (0.3, - 0.2), detected = True\<rparr>,
      errorMsg = []\<rparr>"

text \<open>
  What the hand landmarker promises of a result: every hand it reports has all 21
  landmarks.
\<close>

definition fullHands :: "inference \<Rightarrow> bool" where
  "fullHands outcome =
     (case outcome of
        Throws \<Rightarrow> True
      | Results None \<Rightarrow> True
      | Results (Some hands) \<Rightarrow> list_all (\<lambda>hand. length hand = 21) hands)"

text \<open>The five error names of the specification's camera and permission errors.\<close>

definition cameraErrorNames :: "string set" where
  "cameraErrorNames =
     {''NotFoundError'', ''NotAllowedError'', ''NotReadableError'',
      ''OverconstrainedError'', ''SecurityError''}"

text \<open>
  Initialization fails with \<open>e\<close>: the camera API is there, and \<^verbatim>\<open>initialize\<close> rejects with
  \<open>e\<close>, or it resolves, a video element is mounted and \<^verbatim>\<open>startCamera\<close> rejects with \<open>e\<close>.
\<close>

definition initFailsWith :: "StartEnv \<Rightarrow> Thrown \<Rightarrow> bool" where
  "initFailsWith env e =
     (hasGetUserMedia env \<and>
      (initializeRejects env = Some e \<or>
       (initializeRejects env = None \<and> videoRefCurrent env \<noteq> None \<and>
        startCameraRejects env = Some e)))"

text \<open>
  Two environments: one where the user denies the camera, one where the model assets
  cannot be fetched.
\<close>

definition deniedEnv :: StartEnv where
  "deniedEnv =
     \<lparr>hasGetUserMedia = True, initializeRejects = None,
      videoRefCurrent = Some \<lparr>videoWidth = 0, videoHeight = 0, currentTime = 0\<rparr>,
      startCameraRejects =
        Some \<lparr>err_name = Some ''NotAllowedError'', err_message = Some ''Permission denied''\<rparr>,
      firstFrame = Throws\<rparr>"

definition modelFailsEnv :: StartEnv where
  "modelFailsEnv =
     \<lparr>hasGetUserMedia = True,
      initializeRejects =
        Some \<lparr>err_name = Some ''TypeError'', err_message = Some ''Failed to fetch''\<rparr>,
      videoRefCurrent = Some \<lparr>videoWidth = 0, videoHeight = 0, currentTime = 0\<rparr>,
      startCameraRejects = None,
      firstFrame = Throws\<rparr>"

text \<open>A stream of draws for the examples: 1/2, 1/3, 1/4, ...\<close>

definition sampleDraws :: rng where
  "sampleDraws n = 1 / (real n + 2)"

text \<open>
  The recurrence of the specification, \<open>p += (dest - p) * speed\<close>, and the destination
  that belongs to a scene state.
\<close>

definition relax :: "real \<Rightarrow> real \<Rightarrow> real \<Rightarrow> real" where
  "relax dest speed p = p + (dest - p) * speed"

definition destOf :: "TreeState \<Rightarrow> real" where
  "destOf state = (if state = FORMED then 1 else 0)"

text \<open>
  Fixtures for the animators: fifty ornaments that all go from the origin to \<open>(1, 0, 0)\<close>,
  two photos, a store of mesh progress values and a store of refs.
\<close>

definition sampleOrnaments :: OrnamentsData where
  "sampleOrnaments =
     \<lparr>chaosPos = replicate 50 (Vector3 0 0 0), targetPos = replicate 50 (Vector3 1 0 0)\<rparr>"

definition twoPhotos :: "Photo list" where
  "twoPhotos =
     [\<lparr>ph_id = 1, ph_src = ''a.jpg'', ph_caption = ''a'', ph_baseRotationZ = 0,
       ph_targetPos = Vector3 1 4 0, ph_chaosPos = Vector3 0 0 9\<rparr>,
      \<lparr>ph_id = 3, ph_src = ''c.jpg'', ph_caption = ''c'', ph_baseRotationZ = 0,
       ph_targetPos = Vector3 0 7 1, ph_chaosPos = Vector3 5 0 0\<rparr>]"

definition sampleHeap :: userData where
  "sampleHeap = (\<lambda>m. None)(0 := Some (1 / 2), 1 := Some (1 / 4))"

definition sampleRefs :: refs where
  "sampleRefs = (\<lambda>r. 0)(7 := 1 / 2, 8 := 3)"

text \<open>A manifest of three file names.\<close>

definition threeFiles :: "string list" where
  "threeFiles = [''a.jpg'', ''b.jpg'', ''c.jpg'']"

section \<open>Scene state machine\<close>

lemma handleResult_closed:
  "res_detected r \<Longrightarrow> \<not> res_isOpen r \<Longrightarrow> treeState (handleResult (Some r) app) = FORMED"
  by (simp add: handleResult_def Let_def)

lemma handleResult_open:
  "res_detected r \<Longrightarrow> res_isOpen r \<Longrightarrow> treeState (handleResult (Some r) app) = CHAOS"
  by (simp add: handleResult_def Let_def)

lemma handleResult_not_detected:
  "\<not> res_detected r \<Longrightarrow> treeState (handleResult (Some r) app) = treeState app"
  by (simp add: handleResult_def Let_def)

lemma loop_handleResult:
  "fst (loop outcome app vs) = handleResult (fst (detect vs outcome)) app"
proof (cases "isRunning vs")
  case True
  then show ?thesis
    by (cases "detect vs outcome") (simp add: loop_def)
next
  case False
  then have "fst (detect vs outcome) = None"
    by (simp add: detect_def split: option.splits)
  with False show ?thesis
    by (simp add: loop_def handleResult_def)
qed

text \<open>
  Claim C1. Starting in CHAOS, a reading with detected and not open moves the scene to
  FORMED; a reading that is not detected then leaves it there; a reading with detected
  and open then moves it back to CHAOS. A reading that is not detected never changes the
  scene state, whatever state it is in. The readings are processed by \<^verbatim>\<open>loop\<close>: what
  it does to the application is what \<open>handleResult\<close> does with the result of \<^verbatim>\<open>detect\<close>.
\<close>

theorem scene_state_machine:
  assumes "treeState app = CHAOS"
    and "res_detected fist" and "\<not> res_isOpen fist"
    and "\<not> res_detected lost"
    and "res_detected palm" and "res_isOpen palm"
  shows "treeState (handleResult (Some fist) app) = FORMED
    \<and> treeState (handleResult (Some lost) (handleResult (Some fist) app)) = FORMED
    \<and> treeState (handleResult (Some palm)
           (handleResult (Some lost) (handleResult (Some fist) app))) = CHAOS
    \<and> treeState (handleResult (Some lost) other) = treeState other
    \<and> fst (loop outcome other vs) = handleResult (fst (detect vs outcome)) other"
  using assms
  by (simp add: handleResult_closed handleResult_open handleResult_not_detected
        loop_handleResult)

theorem scene_state_machine_witness:
  "treeState (handleResult
      (Some \<lparr>res_isOpen = False, res_x = 0, res_y = 0, res_detected = True\<rparr>) App_init)
     = FORMED
   \<and> treeState (handleResult
      (Some \<lparr>res_isOpen = False, res_x = 0, res_y = 0, res_detected = False\<rparr>)
      (handleResult
        (Some \<lparr>res_isOpen = False, res_x = 0, res_y = 0, res_detected = True\<rparr>) App_init))
     = FORMED
   \<and> treeState (handleResult
      (Some \<lparr>res_isOpen = True, res_x = 0, res_y = 0, res_detected = True\<rparr>)
      (handleResult
        (Some \<lparr>res_isOpen = False, res_x = 0, res_y = 0, res_detected = False\<rparr>)
        (handleResult
          (Some \<lparr>res_isOpen = False, res_x = 0, res_y = 0, res_detected = True\<rparr>)
          App_init))) = CHAOS"
  using scene_state_machine
    [of App_init
        "\<lparr>res_isOpen = False, res_x = 0, res_y = 0, res_detected = True\<rparr>"
        "\<lparr>res_isOpen = False, res_x = 0, res_y = 0, res_detected = False\<rparr>"
        "\<lparr>res_isOpen = True, res_x = 0, res_y = 0, res_detected = True\<rparr>"]
  by (simp add: App_init_def)


section \<open>Gesture classifier\<close>

lemma tipsForEach_tips:
  "tipsForEach lms tips t =
     (if 20 < length lms
      then Inr (t + tipDist (lms ! 4) (lms ! 0) + tipDist (lms ! 8) (lms ! 0)
                  + tipDist (lms ! 12) (lms ! 0) + tipDist (lms ! 16) (lms ! 0)
                  + tipDist (lms ! 20) (lms ! 0))
      else Inl TypeError)"
  by (simp add: tips_def)

lemma classifyHand_short: "length lms \<le> 20 \<Longrightarrow> classifyHand lms = Inl TypeError"
  by (simp add: classifyHand_def tipsForEach_tips)

lemma classifyHand_full:
  assumes "20 < length lms"
  shows "\<exists>r. classifyHand lms = Inr r \<and> res_detected r
            \<and> res_isOpen r = (0.25 < avgTipDistance lms)"
  using assms
  by (simp add: classifyHand_def tipsForEach_tips Let_def tips_def avgTipDistance_def tipDist_def add.assoc)

lemma detectTry_Inl_iff:
  "(\<exists>e. detectTry outcome = Inl e) \<longleftrightarrow>
     outcome = Throws \<or> (\<exists>hand others. outcome = Results (Some (hand # others)) \<and> length hand < 21)"
proof (cases outcome)
  case Throws
  then show ?thesis by (simp add: detectTry_def)
next
  case (Results hands)
  show ?thesis
  proof (cases hands)
    case None
    with Results show ?thesis by (simp add: detectTry_def)
  next
    case (Some hs)
    show ?thesis
    proof (cases hs)
      case Nil
      with Some Results show ?thesis by (simp add: detectTry_def)
    next
      case (Cons hand others)
      show ?thesis
      proof (cases "20 < length hand")
        case True
        from classifyHand_full [OF True] obtain r where "classifyHand hand = Inr r" by blast
        with Cons Some Results True show ?thesis by (simp add: detectTry_def)
      next
        case False
        then have "classifyHand hand = Inl TypeError" by (simp add: classifyHand_short)
        with Cons Some Results False show ?thesis by (simp add: detectTry_def)
      qed
    qed
  qed
qed

lemma detect_None_iff:
  "fst (detect vs outcome) = None \<longleftrightarrow>
     (handLandmarker vs = False \<or> isRunning vs = False \<or> video vs = None
      \<or> (\<exists>v. video vs = Some v \<and>
            (videoWidth v = 0 \<or> videoHeight v = 0 \<or> currentTime v = lastVideoTime vs))
      \<or> (\<exists>e. detectTry outcome = Inl e))"
  by (auto simp: detect_def split: option.splits sum.splits)

lemma detect_ready:
  assumes "handLandmarker vs" "isRunning vs" "video vs = Some v"
    and "videoWidth v \<noteq> 0" "videoHeight v \<noteq> 0" "currentTime v \<noteq> lastVideoTime vs"
  shows "detect vs outcome =
           ((case detectTry outcome of Inl e \<Rightarrow> None | Inr r \<Rightarrow> Some r),
            vs\<lparr>lastVideoTime := currentTime v\<rparr>)"
  using assms by (simp add: detect_def split: sum.splits)

lemma avgTipDistance_syntheticHand: "0 \<le> d \<Longrightarrow> avgTipDistance (syntheticHand d) = d"
  by (simp add: avgTipDistance_def syntheticHand_def)

text \<open>
  Claim C3. On a frame that is processed, a hand with all its landmarks is classified open
  exactly when the average distance from the wrist to the five fingertips exceeds 0.25,
  and closed otherwise: an average of 0.30 is open, an average of 0.10 is closed, and an
  average of exactly 0.25 is closed.
\<close>

theorem gesture_classifier:
  assumes "handLandmarker vs" and "isRunning vs" and "video vs = Some v"
    and "videoWidth v \<noteq> 0" and "videoHeight v \<noteq> 0"
    and "currentTime v \<noteq> lastVideoTime vs"
    and "20 < length hand"
  shows "\<exists>r. fst (detect vs (Results (Some (hand # others)))) = Some r
           \<and> res_detected r
           \<and> (res_isOpen r \<longleftrightarrow> 0.25 < avgTipDistance hand)
           \<and> (avgTipDistance hand = 0.30 \<longrightarrow> res_isOpen r)
           \<and> (avgTipDistance hand = 0.10 \<longrightarrow> \<not> res_isOpen r)
           \<and> (avgTipDistance hand = 0.25 \<longrightarrow> \<not> res_isOpen r)"
proof -
  from classifyHand_full [OF assms(7)] obtain r
    where r: "classifyHand hand = Inr r" "res_detected r"
      "res_isOpen r = (0.25 < avgTipDistance hand)"
    by blast
  have "fst (detect vs (Results (Some (hand # others)))) = Some r"
    using r(1) by (simp add: detect_ready [OF assms(1-6)] detectTry_def)
  with r show ?thesis by simp
qed

theorem gesture_classifier_witness:
  "(\<exists>r. fst (detect runningService (Results (Some [syntheticHand 0.30]))) = Some r
        \<and> res_detected r \<and> res_isOpen r)
   \<and> (\<exists>r. fst (detect runningService (Results (Some [syntheticHand 0.10]))) = Some r
        \<and> res_detected r \<and> \<not> res_isOpen r)
   \<and> (\<exists>r. fst (detect runningService (Results (Some [syntheticHand 0.25]))) = Some r
        \<and> res_detected r \<and> \<not> res_isOpen r)"
proof -
  have len: "20 < length (syntheticHand d)" for d
    by (simp add: syntheticHand_def)
  have rs: "handLandmarker runningService" "isRunning runningService"
    "video runningService = Some \<lparr>videoWidth = 640, videoHeight = 480, currentTime = 1\<rparr>"
    "currentTime \<lparr>videoWidth = 640, videoHeight = 480, currentTime = 1\<rparr>
       \<noteq> lastVideoTime runningService"
    by (simp_all add: runningService_def)
  have nz: "videoWidth \<lparr>videoWidth = 640, videoHeight = 480, currentTime = 1\<rparr> \<noteq> 0"
    "videoHeight \<lparr>videoWidth = 640, videoHeight = 480, currentTime = 1\<rparr> \<noteq> 0"
    by simp_all
  note inst = gesture_classifier [OF rs(1) rs(2) rs(3) nz(1) nz(2) rs(4) len, of _ "[]"]
  show ?thesis
    using inst [of "0.30"] inst [of "0.10"] inst [of "0.25"]
    by (simp add: avgTipDistance_syntheticHand)
qed

section \<open>No new data\<close>

lemma loop_None:
  "fst (detect vs outcome) = None \<Longrightarrow> fst (loop outcome app vs) = app"
  by (cases "detect vs outcome") (simp add: loop_def handleResult_def)

lemma loop_scheduled: "snd (snd (loop outcome app vs)) = isRunning vs"
  by (simp add: loop_def split: prod.splits)

lemma detectTry_fullHands:
  assumes "fullHands outcome"
  shows "(\<exists>e. detectTry outcome = Inl e) \<longleftrightarrow> outcome = Throws"
proof -
  have "\<not> (\<exists>hand others. outcome = Results (Some (hand # others)) \<and> length hand < 21)"
    using assms by (auto simp: fullHands_def)
  then show ?thesis
    unfolding detectTry_Inl_iff by blast
qed

lemma detectTry_not_detected:
  assumes "fullHands outcome"
  shows "(\<exists>r. detectTry outcome = Inr r \<and> \<not> res_detected r)
           \<longleftrightarrow> outcome = Results None \<or> outcome = Results (Some [])"
proof (cases outcome)
  case Throws
  then show ?thesis by (simp add: detectTry_def)
next
  case (Results hands)
  show ?thesis
  proof (cases hands)
    case None
    with Results show ?thesis by (simp add: detectTry_def)
  next
    case (Some hs)
    show ?thesis
    proof (cases hs)
      case Nil
      with Some Results show ?thesis by (simp add: detectTry_def)
    next
      case (Cons hand others)
      have "20 < length hand"
        using assms Results Some Cons by (simp add: fullHands_def)
      from classifyHand_full [OF this] obtain r
        where "classifyHand hand = Inr r" "res_detected r"
        by blast
      with Cons Some Results show ?thesis by (auto simp: detectTry_def)
    qed
  qed
qed

lemma fst_detect:
  assumes "isRunning vs" and "handLandmarker vs" and "video vs = Some v"
  shows "fst (detect vs outcome)
           = (if videoWidth v = 0 \<or> videoHeight v = 0 \<or> currentTime v = lastVideoTime vs
              then None
              else (case detectTry outcome of Inl e \<Rightarrow> None | Inr r \<Rightarrow> Some r))"
  using assms by (auto simp: detect_def split: sum.splits)

lemma snd_detect:
  assumes "isRunning vs" and "handLandmarker vs" and "video vs = Some v"
  shows "snd (detect vs outcome)
           = (if videoWidth v = 0 \<or> videoHeight v = 0 then vs
              else vs\<lparr>lastVideoTime := currentTime v\<rparr>)"
  using assms by (auto simp: detect_def split: sum.splits)

lemma detect_twice:
  assumes "isRunning vs" and "handLandmarker vs" and "video vs = Some v"
  shows "fst (detect (snd (detect vs outcome)) later) = None"
proof (cases "videoWidth v = 0 \<or> videoHeight v = 0")
  case True
  then show ?thesis
    using assms by (auto simp: snd_detect [OF assms] fst_detect [OF assms])
next
  case False
  have r: "isRunning (vs\<lparr>lastVideoTime := currentTime v\<rparr>)"
    "handLandmarker (vs\<lparr>lastVideoTime := currentTime v\<rparr>)"
    "video (vs\<lparr>lastVideoTime := currentTime v\<rparr>) = Some v"
    using assms by simp_all
  show ?thesis
    using False by (simp add: snd_detect [OF assms] fst_detect [OF r])
qed

lemma loop_running:
  "isRunning vs \<Longrightarrow>
     loop outcome app vs
       = (handleResult (fst (detect vs outcome)) app, snd (detect vs outcome), True)"
  by (cases "detect vs outcome") (simp add: loop_def)

text \<open>
  The service is ready whenever it is running: \<^verbatim>\<open>startExperience\<close> starts the camera, which
  sets the service running, only after the landmarker was created, and \<^verbatim>\<open>detect\<close> changes
  nothing but the recorded video time.
\<close>

lemma startExperience_ready:
  "isRunning (fst (snd (startExperience env app visionService))) \<Longrightarrow>
     handLandmarker (fst (snd (startExperience env app visionService)))
     \<and> video (fst (snd (startExperience env app visionService))) \<noteq> None"
  by (auto simp: startExperience_def initialize_def startCamera_def visionService_def loop_def
        detect_def Let_def split: option.splits sum.splits prod.splits if_splits)

text \<open>
  Claim C4. In operation (the service running, hence with its landmarker and its video
  element) and on results whose hands have all their landmarks, \<^verbatim>\<open>detect\<close> returns \<^verbatim>\<open>null\<close>
  exactly when the frame has zero width or height, when the video time equals the recorded
  one, or when inference throws. A not-detected reading is another value, returned exactly
  when a new decoded frame shows no hand. \<^verbatim>\<open>detect\<close> records the video time of every decoded
  frame it is given, so a second call on the same frame returns \<^verbatim>\<open>null\<close> whatever inference
  would give. \<^verbatim>\<open>loop\<close> returns with the next run scheduled, and on \<^verbatim>\<open>null\<close> it leaves the
  application, with the stored reading, as it was.
\<close>

theorem detect_null_exactly:
  assumes "isRunning vs" and "handLandmarker vs" and "video vs = Some v"
    and "fullHands outcome"
  shows "(fst (detect vs outcome) = None \<longleftrightarrow>
            videoWidth v = 0 \<or> videoHeight v = 0 \<or> currentTime v = lastVideoTime vs
            \<or> outcome = Throws)
       \<and> ((\<exists>r. fst (detect vs outcome) = Some r \<and> \<not> res_detected r) \<longleftrightarrow>
            videoWidth v \<noteq> 0 \<and> videoHeight v \<noteq> 0 \<and> currentTime v \<noteq> lastVideoTime vs
            \<and> (outcome = Results None \<or> outcome = Results (Some [])))
       \<and> snd (detect vs outcome)
           = (if videoWidth v = 0 \<or> videoHeight v = 0 then vs
              else vs\<lparr>lastVideoTime := currentTime v\<rparr>)
       \<and> fst (detect (snd (detect vs outcome)) later) = None
       \<and> loop outcome app vs
           = (handleResult (fst (detect vs outcome)) app, snd (detect vs outcome), True)
       \<and> (fst (detect vs outcome) = None \<longrightarrow> fst (loop outcome app vs) = app)
       \<and> (isRunning (fst (snd (startExperience env app0 visionService))) \<longrightarrow>
            handLandmarker (fst (snd (startExperience env app0 visionService)))
            \<and> video (fst (snd (startExperience env app0 visionService))) \<noteq> None)"
proof -
  note ready = assms(1-3)
  have thr: "(\<exists>e. detectTry outcome = Inl e) \<longleftrightarrow> outcome = Throws"
    using assms(4) by (rule detectTry_fullHands)
  have nd: "(\<exists>r. detectTry outcome = Inr r \<and> \<not> res_detected r)
           \<longleftrightarrow> outcome = Results None \<or> outcome = Results (Some [])"
    using assms(4) by (rule detectTry_not_detected)
  have c1: "fst (detect vs outcome) = None \<longleftrightarrow>
            videoWidth v = 0 \<or> videoHeight v = 0 \<or> currentTime v = lastVideoTime vs
            \<or> outcome = Throws"
    using thr by (cases "detectTry outcome") (auto simp: fst_detect [OF ready])
  have c2: "(\<exists>r. fst (detect vs outcome) = Some r \<and> \<not> res_detected r) \<longleftrightarrow>
            videoWidth v \<noteq> 0 \<and> videoHeight v \<noteq> 0 \<and> currentTime v \<noteq> lastVideoTime vs
            \<and> (outcome = Results None \<or> outcome = Results (Some []))"
    using nd by (cases "detectTry outcome") (auto simp: fst_detect [OF ready])
  note c3 = snd_detect [OF ready, of outcome]
  note c4 = detect_twice [OF ready, of outcome later]
  note c5 = loop_running [OF assms(1), of outcome app]
  have c6: "fst (detect vs outcome) = None \<longrightarrow> fst (loop outcome app vs) = app"
    by (simp add: loop_None)
  have c7: "isRunning (fst (snd (startExperience env app0 visionService))) \<longrightarrow>
            handLandmarker (fst (snd (startExperience env app0 visionService)))
            \<and> video (fst (snd (startExperience env app0 visionService))) \<noteq> None"
    using startExperience_ready [of env app0] by blast
  show ?thesis
    by (rule conjI, rule c1, rule conjI, rule c2, rule conjI, rule c3, rule conjI, rule c4,
        rule conjI, rule c5, rule conjI, rule c6, rule c7)
qed

theorem detect_null_exactly_witness:
  "fst (detect runningService Throws) = None
   \<and> fst (loop Throws previousApp runningService) = previousApp
   \<and> fst (detect runningService (Results None))
       = Some \<lparr>res_isOpen = False, res_x = 0, res_y = 0, res_detected = False\<rparr>
   \<and> lastVideoTime (snd (detect runningService (Results None))) = 1
   \<and> fst (detect (snd (detect runningService (Results None))) (Results None)) = None
   \<and> fst (loop (Results None) previousApp (snd (detect runningService (Results None))))
       = previousApp"
proof -
  have r: "isRunning runningService" "handLandmarker runningService"
    "video runningService = Some \<lparr>videoWidth = 640, videoHeight = 480, currentTime = 1\<rparr>"
    by (simp_all add: runningService_def)
  have f: "fullHands Throws" "fullHands (Results None)"
    by (simp_all add: fullHands_def)
  have d: "fst (detect runningService (Results None))
       = Some \<lparr>res_isOpen = False, res_x = 0, res_y = 0, res_detected = False\<rparr>"
    by (simp add: detect_def detectTry_def runningService_def)
  note A = detect_null_exactly [where app = previousApp, OF r f(1)]
  note B = detect_null_exactly [where later = "Results None", OF r f(2)]
  have w1: "fst (detect runningService Throws) = None"
    using A by blast
  have w2: "fst (loop Throws previousApp runningService) = previousApp"
    using A w1 by blast
  have s: "snd (detect runningService (Results None))
       = (if videoWidth \<lparr>videoWidth = 640, videoHeight = 480, currentTime = 1\<rparr> = 0
             \<or> videoHeight \<lparr>videoWidth = 640, videoHeight = 480, currentTime = 1\<rparr> = 0
          then runningService
          else runningService
                 \<lparr>lastVideoTime :=
                    currentTime \<lparr>videoWidth = 640, videoHeight = 480, currentTime = 1\<rparr>\<rparr>)"
    using B by blast
  have w4: "lastVideoTime (snd (detect runningService (Results None))) = 1"
    by (simp add: s)
  have w5: "fst (detect (snd (detect runningService (Results None))) (Results None)) = None"
    using B by blast
  have w6: "fst (loop (Results None) previousApp (snd (detect runningService (Results None))))
       = previousApp"
    using w5 by (rule loop_None)
  show ?thesis
    by (rule conjI, rule w1, rule conjI, rule w2, rule conjI, rule d, rule conjI, rule w4,
        rule conjI, rule w5, rule w6)
qed

section \<open>No hand in the frame\<close>

text \<open>
  Claim C10. When a new frame is processed and inference finds no hand, \<^verbatim>\<open>detect\<close>
  returns the reading with \<open>isOpen = False\<close>, position \<open>(0, 0)\<close> and
  \<open>detected = False\<close>; \<^verbatim>\<open>loop\<close> stores it in place of the previous reading and leaves
  the scene state as it was.
\<close>

theorem detect_no_hand:
  assumes "handLandmarker vs" and "isRunning vs" and "video vs = Some v"
    and "videoWidth v \<noteq> 0" and "videoHeight v \<noteq> 0"
    and "currentTime v \<noteq> lastVideoTime vs"
    and "hands = None \<or> hands = Some []"
  shows "fst (detect vs (Results hands))
           = Some \<lparr>res_isOpen = False, res_x = 0, res_y = 0, res_detected = False\<rparr>
         \<and> gesture (fst (loop (Results hands) app vs))
           = Some \<lparr>isOpen = False, position = (0, 0), detected = False\<rparr>
         \<and> treeState (fst (loop (Results hands) app vs)) = treeState app"
proof -
  have t: "detectTry (Results hands)
             = Inr \<lparr>res_isOpen = False, res_x = 0, res_y = 0, res_detected = False\<rparr>"
    using assms(7) by (auto simp: detectTry_def)
  have d: "detect vs (Results hands)
             = (Some \<lparr>res_isOpen = False, res_x = 0, res_y = 0, res_detected = False\<rparr>,
                vs\<lparr>lastVideoTime := currentTime v\<rparr>)"
    by (simp add: detect_ready [OF assms(1-6)] t)
  show ?thesis
    using assms(2) by (simp add: d loop_def handleResult_def)
qed

theorem detect_no_hand_witness:
  "fst (detect runningService (Results (Some [])))
     = Some \<lparr>res_isOpen = False, res_x = 0, res_y = 0, res_detected = False\<rparr>
   \<and> gesture previousApp = Some \<lparr>isOpen = False, position = (0.3, - 0.2), detected = True\<rparr>
   \<and> gesture (fst (loop (Results (Some [])) previousApp runningService))
     = Some \<lparr>isOpen = False, position = (0, 0), detected = False\<rparr>
   \<and> treeState (fst (loop (Results (Some [])) previousApp runningService)) = FORMED"
  using detect_no_hand [of runningService
      "\<lparr>videoWidth = 640, videoHeight = 480, currentTime = 1\<rparr>" "Some []" previousApp]
  by (simp add: runningService_def previousApp_def)


section \<open>Initialization failures\<close>

lemma cameraRelated_iff:
  "cameraRelated e \<longleftrightarrow> (\<exists>n \<in> cameraErrorNames. err_name e = Some n)"
  by (cases "err_name e") (auto simp: cameraRelated_def cameraErrorNames_def)

lemma startExperience_fails:
  assumes "initFailsWith env e"
  shows "\<exists>vs' calls. startExperience env app vs =
            (startExperienceCatch e (app\<lparr>appState := LOADING, errorMsg := []\<rparr>), vs', calls)
          \<and> isRunning vs' = isRunning vs
          \<and> CallLoop \<notin> set calls
          \<and> length (filter (\<lambda>c. c = CallInitialize) calls) = 1
          \<and> length (filter (\<lambda>c. c = CallStartCamera) calls) \<le> 1"
  using assms
  by (auto simp: initFailsWith_def startExperience_def initialize_def startCamera_def Let_def
           split: option.splits)

text \<open>
  Claim C5. When initialization throws an error whose name is one of the five camera
  names, the application ends in RUNNING with an empty error message and the manual
  controls on screen; for any other thrown value it ends in ERROR with a non-empty
  message (the error's own, or the default one) on a panel whose button reloads the
  page. In both cases the frame loop is not started, the service is not set running,
  the scene state and the reading are untouched, and \<^verbatim>\<open>initialize\<close> was called once and
  \<^verbatim>\<open>startCamera\<close> at most once: nothing is tried again.
\<close>

theorem initialization_failure:
  assumes "initFailsWith env e"
  shows "case startExperience env app vs of (app', vs', calls) \<Rightarrow>
           (err_name e \<in> Some ` cameraErrorNames \<longrightarrow>
              appState app' = RUNNING \<and> errorMsg app' = []
              \<and> renderOverlay app' = Controls ForceChaos ForceFormed)
         \<and> (err_name e \<notin> Some ` cameraErrorNames \<longrightarrow>
              appState app' = ERROR \<and> errorMsg app' \<noteq> []
              \<and> errorMsg app' = (case err_message e of
                                    None \<Rightarrow> defaultErrorMsg
                                  | Some m \<Rightarrow> if m = [] then defaultErrorMsg else m)
              \<and> renderOverlay app' = ErrorPanel (errorMsg app') Reload)
         \<and> treeState app' = treeState app \<and> gesture app' = gesture app
         \<and> isRunning vs' = isRunning vs
         \<and> CallLoop \<notin> set calls
         \<and> length (filter (\<lambda>c. c = CallInitialize) calls) = 1
         \<and> length (filter (\<lambda>c. c = CallStartCamera) calls) \<le> 1"
proof -
  from startExperience_fails [OF assms, of app vs] obtain vs' calls where
    s: "startExperience env app vs =
          (startExperienceCatch e (app\<lparr>appState := LOADING, errorMsg := []\<rparr>), vs', calls)"
    and r: "isRunning vs' = isRunning vs" "CallLoop \<notin> set calls"
      "length (filter (\<lambda>c. c = CallInitialize) calls) = 1"
      "length (filter (\<lambda>c. c = CallStartCamera) calls) \<le> 1"
    by blast
  have c: "cameraRelated e \<longleftrightarrow> err_name e \<in> Some ` cameraErrorNames"
    by (auto simp: cameraRelated_iff)
  have d: "defaultErrorMsg \<noteq> []" by (simp add: defaultErrorMsg_def)
  show ?thesis
    using r d by (simp add: s startExperienceCatch_def c renderOverlay_def split: option.splits)
qed

theorem initialization_failure_witness:
  "appState (fst (startExperience deniedEnv App_init visionService)) = RUNNING
   \<and> errorMsg (fst (startExperience deniedEnv App_init visionService)) = []
   \<and> snd (snd (startExperience deniedEnv App_init visionService))
       = [CallInitialize, CallStartCamera]
   \<and> appState (fst (startExperience modelFailsEnv App_init visionService)) = ERROR
   \<and> renderOverlay (fst (startExperience modelFailsEnv App_init visionService))
       = ErrorPanel ''Failed to fetch'' Reload
   \<and> snd (snd (startExperience modelFailsEnv App_init visionService)) = [CallInitialize]"
proof -
  have f1: "initFailsWith deniedEnv
              \<lparr>err_name = Some ''NotAllowedError'', err_message = Some ''Permission denied''\<rparr>"
    by (simp add: initFailsWith_def deniedEnv_def)
  have f2: "initFailsWith modelFailsEnv
              \<lparr>err_name = Some ''TypeError'', err_message = Some ''Failed to fetch''\<rparr>"
    by (simp add: initFailsWith_def modelFailsEnv_def)
  show ?thesis
    using initialization_failure [OF f1, of App_init visionService]
      initialization_failure [OF f2, of App_init visionService]
    by (simp add: startExperience_def deniedEnv_def modelFailsEnv_def initialize_def
          startCamera_def startExperienceCatch_def cameraRelated_def renderOverlay_def
          App_init_def visionService_def Let_def)
qed


section \<open>Point samplers\<close>

lemma unit_draws_sampleDraws: "unit_draws sampleDraws"
  by (simp add: unit_draws_def sampleDraws_def)

lemma getConePoint_eq:
  "getConePoint height maxRadius verticalBias g =
     (Vector3 (sqrt (g 2) * ((1 - g 0 * height / height) * maxRadius) * cos (g 1 * pi * 2))
              (g 0 * height - height / 2 + verticalBias)
              (sqrt (g 2) * ((1 - g 0 * height / height) * maxRadius) * sin (g 1 * pi * 2)),
      \<lambda>n. g (Suc (Suc (Suc n))))"
  by (simp add: getConePoint_def Math_random_def Let_def numeral_2_eq_2)

lemma axisDist_polar: "axisDist (Vector3 (r * cos a) h (r * sin a)) = \<bar>r\<bar>"
proof -
  have "(r * cos a)\<^sup>2 + (r * sin a)\<^sup>2 = r\<^sup>2 * ((cos a)\<^sup>2 + (sin a)\<^sup>2)"
    by (simp only: power_mult_distrib distrib_left)
  also have "(cos a)\<^sup>2 + (sin a)\<^sup>2 = 1"
    by simp
  finally have "(r * cos a)\<^sup>2 + (r * sin a)\<^sup>2 = r\<^sup>2"
    by simp
  then show ?thesis
    by (simp add: axisDist_def)
qed

text \<open>
  Claim C6. For a positive height, a non-negative maximal radius and draws in \<open>[0, 1)\<close>,
  the cone sampler takes the height \<open>y\<close> as the first draw times the height, in
  \<open>[0, height]\<close>, the bound \<open>(1 - y / height) * maxRadius\<close>, the angle as the second draw
  times \<open>2 * pi\<close>, in \<open>[0, 2 * pi)\<close>, and the radius \<open>r\<close> as the square root of the third
  draw times the bound; it returns \<open>(r * cos angle, y - height / 2 + verticalBias,
  r * sin angle)\<close>, whose distance from the axis is at most the bound, also when the
  height is read back from the returned point.
\<close>

theorem cone_point_within_taper:
  assumes "0 < height" and "0 \<le> maxRadius" and "unit_draws g"
  shows "let y = g 0 * height;
             bound = (1 - y / height) * maxRadius;
             angle = g 1 * pi * 2;
             r = sqrt (g 2) * bound;
             p = fst (getConePoint height maxRadius verticalBias g)
         in 0 \<le> y \<and> y \<le> height
          \<and> 0 \<le> angle \<and> angle < 2 * pi
          \<and> 0 \<le> r \<and> r \<le> bound
          \<and> p = Vector3 (r * cos angle) (y - height / 2 + verticalBias) (r * sin angle)
          \<and> axisDist p \<le> bound
          \<and> axisDist p \<le> (1 - (vy p - verticalBias + height / 2) / height) * maxRadius"
proof -
  define y where "y = g 0 * height"
  define bound where "bound = (1 - y / height) * maxRadius"
  define angle where "angle = g 1 * pi * 2"
  define r where "r = sqrt (g 2) * bound"
  define p where "p = fst (getConePoint height maxRadius verticalBias g)"
  have g0: "0 \<le> g 0" "g 0 < 1" and g1: "0 \<le> g 1" "g 1 < 1" and g2: "0 \<le> g 2" "g 2 < 1"
    using assms(3) by (simp_all add: unit_draws_def)
  have y: "0 \<le> y" "y \<le> height"
    using g0 assms(1) by (simp_all add: y_def mult_left_le_one_le)
  have frac: "y / height = g 0"
    using assms(1) by (simp add: y_def)
  have bound: "0 \<le> bound"
    using g0 assms(2) by (simp add: bound_def frac)
  have angle: "0 \<le> angle" "angle < 2 * pi"
    using g1 by (simp_all add: angle_def)
  have s: "0 \<le> sqrt (g 2)" "sqrt (g 2) \<le> 1"
    using g2 by simp_all
  have r: "0 \<le> r" "r \<le> bound"
    using s bound by (simp_all add: r_def mult_left_le_one_le)
  have p: "p = Vector3 (r * cos angle) (y - height / 2 + verticalBias) (r * sin angle)"
    by (simp add: p_def getConePoint_eq r_def bound_def y_def angle_def)
  have d: "axisDist p = r"
    using r(1) by (simp add: p axisDist_polar)
  have inv: "(vy p - verticalBias + height / 2) / height = y / height"
    by (simp add: p)
  show ?thesis
    unfolding Let_def y_def [symmetric] bound_def [symmetric] angle_def [symmetric]
      r_def [symmetric] p_def [symmetric]
    using y angle r p d inv by (simp add: bound_def)
qed

theorem cone_point_within_taper_witness:
  "axisDist (fst (getConePoint 12 4 1 sampleDraws)) \<le> (1 - sampleDraws 0 * 12 / 12) * 4
   \<and> fst (getConePoint 12 4 1 sampleDraws)
       = Vector3 (sqrt (sampleDraws 2) * ((1 - sampleDraws 0 * 12 / 12) * 4)
                    * cos (sampleDraws 1 * pi * 2))
                 (sampleDraws 0 * 12 - 12 / 2 + 1)
                 (sqrt (sampleDraws 2) * ((1 - sampleDraws 0 * 12 / 12) * 4)
                    * sin (sampleDraws 1 * pi * 2))"
proof -
  have h: "(0::real) < 12" "(0::real) \<le> 4"
    by simp_all
  from cone_point_within_taper [OF h unit_draws_sampleDraws, of 1, unfolded Let_def]
  show ?thesis
    by blast
qed

lemma getRandomSpherePoint_eq:
  "getRandomSpherePoint radius g =
     (Vector3 (root 3 (g 2) * radius * sin (arccos (2 * g 1 - 1)) * cos (2 * pi * g 0))
              (root 3 (g 2) * radius * sin (arccos (2 * g 1 - 1)) * sin (2 * pi * g 0))
              (root 3 (g 2) * radius * cos (arccos (2 * g 1 - 1))),
      \<lambda>n. g (Suc (Suc (Suc n))))"
  by (simp add: getRandomSpherePoint_def Math_random_def Let_def numeral_2_eq_2)

lemma norm3_spherical:
  "norm3 (Vector3 (r * sin b * cos a) (r * sin b * sin a) (r * cos b)) = \<bar>r\<bar>"
proof -
  have "(r * sin b * cos a)\<^sup>2 + (r * sin b * sin a)\<^sup>2
          = (r * sin b)\<^sup>2 * ((cos a)\<^sup>2 + (sin a)\<^sup>2)"
    by (simp only: power_mult_distrib distrib_left)
  also have "(cos a)\<^sup>2 + (sin a)\<^sup>2 = 1"
    by simp
  finally have xy: "(r * sin b * cos a)\<^sup>2 + (r * sin b * sin a)\<^sup>2 = (r * sin b)\<^sup>2"
    by simp
  have "(r * sin b)\<^sup>2 + (r * cos b)\<^sup>2 = r\<^sup>2 * ((sin b)\<^sup>2 + (cos b)\<^sup>2)"
    by (simp only: power_mult_distrib distrib_left)
  also have "(sin b)\<^sup>2 + (cos b)\<^sup>2 = 1"
    by simp
  finally have "(r * sin b)\<^sup>2 + (r * cos b)\<^sup>2 = r\<^sup>2"
    by simp
  with xy show ?thesis
    by (simp add: norm3_def)
qed

text \<open>
  Claim C7. For a positive radius and draws in \<open>[0, 1)\<close>, the sphere sampler returns the
  point with spherical coordinates \<open>theta = 2 * pi * u\<close>, \<open>phi = arccos (2 * v - 1)\<close> (the
  argument in \<open>[-1, 1]\<close>) and radial distance \<open>r\<close>, the cube root of the third draw times
  the radius; its Euclidean norm is \<open>r\<close>, which is at most the radius.
\<close>

theorem sphere_point_within_radius:
  assumes "0 < radius" and "unit_draws g"
  shows "let theta = 2 * pi * g 0;
             c = 2 * g 1 - 1;
             phi = arccos c;
             r = root 3 (g 2) * radius;
             p = fst (getRandomSpherePoint radius g)
         in - 1 \<le> c \<and> c \<le> 1
          \<and> 0 \<le> phi \<and> phi \<le> pi
          \<and> 0 \<le> r \<and> r \<le> radius
          \<and> p = Vector3 (r * sin phi * cos theta) (r * sin phi * sin theta) (r * cos phi)
          \<and> norm3 p = r
          \<and> norm3 p \<le> radius"
proof -
  define c where "c = 2 * g 1 - 1"
  define r where "r = root 3 (g 2) * radius"
  define p where "p = fst (getRandomSpherePoint radius g)"
  have g1: "0 \<le> g 1" "g 1 < 1" and g2: "0 \<le> g 2" "g 2 < 1"
    using assms(2) by (simp_all add: unit_draws_def)
  have c: "- 1 \<le> c" "c \<le> 1"
    using g1 by (simp_all add: c_def)
  have phi: "0 \<le> arccos c" "arccos c \<le> pi"
    using c by (simp_all add: arccos_lbound arccos_ubound)
  have w: "0 \<le> root 3 (g 2)" "root 3 (g 2) \<le> 1"
    using g2 by simp_all
  have r: "0 \<le> r" "r \<le> radius"
    using w assms(1) by (simp_all add: r_def mult_left_le_one_le)
  have p: "p = Vector3 (r * sin (arccos c) * cos (2 * pi * g 0))
                       (r * sin (arccos c) * sin (2 * pi * g 0)) (r * cos (arccos c))"
    by (simp add: p_def getRandomSpherePoint_eq r_def c_def)
  have n: "norm3 p = r"
    using r(1) unfolding p by (simp only: norm3_spherical abs_of_nonneg)
  show ?thesis
    unfolding Let_def c_def [symmetric] r_def [symmetric] p_def [symmetric]
    using c phi r p n by simp
qed

theorem sphere_point_within_radius_witness:
  "norm3 (fst (getRandomSpherePoint 15 sampleDraws)) \<le> 15
   \<and> norm3 (fst (getRandomSpherePoint 15 sampleDraws)) = root 3 (sampleDraws 2) * 15"
proof -
  have h: "(0::real) < 15"
    by simp
  from sphere_point_within_radius [OF h unit_draws_sampleDraws, unfolded Let_def]
  show ?thesis
    by blast
qed


section \<open>Progress relaxation\<close>

lemma relax_funpow: "(relax dest speed ^^ n) p = dest + (p - dest) * (1 - speed) ^ n"
proof (induction n)
  case 0
  then show ?case by simp
next
  case (Suc n)
  have "(relax dest speed ^^ Suc n) p = relax dest speed ((relax dest speed ^^ n) p)"
    by simp
  also have "\<dots> = relax dest speed (dest + (p - dest) * (1 - speed) ^ n)"
    by (simp only: Suc.IH)
  also have "\<dots> = dest + (p - dest) * (1 - speed) ^ Suc n"
    by (simp add: relax_def algebra_simps)
  finally show ?case .
qed

lemma relax_from_zero: "(relax 1 0.02 ^^ n) 0 = 1 - (1 - 0.02) ^ n"
  by (simp add: relax_funpow)

lemma relax_between:
  assumes "0 \<le> speed" and "speed \<le> 1"
  shows "min p dest \<le> relax dest speed p \<and> relax dest speed p \<le> max p dest"
proof (cases "p \<le> dest")
  case True
  then have "0 \<le> (dest - p) * speed" "(dest - p) * speed \<le> dest - p"
    using assms by (simp_all add: mult_left_le)
  with True show ?thesis by (simp add: relax_def)
next
  case False
  define d where "d = (p - dest) * speed"
  have "0 \<le> d" "d \<le> p - dest"
    using False assms by (simp_all add: d_def mult_left_le)
  moreover have "relax dest speed p = p - d"
    by (simp add: relax_def d_def algebra_simps)
  ultimately show ?thesis
    using False by linarith
qed

text \<open>
  The foliage, the topper and the photo group apply the recurrence once in a frame, with
  speed 0.02.
\<close>

lemma Foliage_useFrame_relax: "Foliage_useFrame state p = relax (destOf state) 0.02 p"
  by (simp add: Foliage_useFrame_def MathUtils_lerp_def relax_def destOf_def field_simps)

lemma Topper_useFrame_relax:
  "snd (Topper_useFrame state time chaos (Some mesh) heap) mesh
     = Some (relax (destOf state) 0.02 (case heap mesh of None \<Rightarrow> 0 | Some q \<Rightarrow> q))"
  by (simp add: Topper_useFrame_def Let_def relax_def destOf_def)

lemma PolaroidPhotos_useFrame_relax:
  "PolaroidPhotos_useFrame state r current r = relax (destOf state) 0.02 (current r)"
  by (simp add: PolaroidPhotos_useFrame_def Let_def relax_def destOf_def)

text \<open>
  The ornaments apply it in the body of the loop over the instances: once per instance,
  so as many times in a frame as the mesh has instances.
\<close>

lemma Ornaments_body_progress:
  "snd (Ornaments_body speed isForming time ornData i progress)
     = Some (relax (if isForming then 1 else 0) speed (case progress of None \<Rightarrow> 0 | Some q \<Rightarrow> q))"
  by (simp add: Ornaments_body_def Let_def relax_def)

lemma Ornaments_for_final:
  assumes "\<And>i progress. snd (body i progress)
             = Some (f (case progress of None \<Rightarrow> 0 | Some q \<Rightarrow> q))"
  shows "snd (Ornaments_for body is progress)
     = (if is = [] then progress
        else Some ((f ^^ length is) (case progress of None \<Rightarrow> 0 | Some q \<Rightarrow> q)))"
proof (induction "is" arbitrary: progress)
  case Nil
  then show ?case by simp
next
  case (Cons i rest)
  obtain pos where b: "body i progress
      = (pos, Some (f (case progress of None \<Rightarrow> 0 | Some q \<Rightarrow> q)))"
    using assms [of i progress] by (cases "body i progress") simp
  obtain positions final where
    r: "Ornaments_for body rest (Some (f (case progress of None \<Rightarrow> 0 | Some q \<Rightarrow> q)))
          = (positions, final)"
    by (cases "Ornaments_for body rest
                 (Some (f (case progress of None \<Rightarrow> 0 | Some q \<Rightarrow> q)))")
  have "final = snd (Ornaments_for body rest
                  (Some (f (case progress of None \<Rightarrow> 0 | Some q \<Rightarrow> q))))"
    by (simp add: r)
  also have "\<dots> = Some ((f ^^ length rest) (f (case progress of None \<Rightarrow> 0 | Some q \<Rightarrow> q)))"
    unfolding Cons.IH by simp
  finally show ?case
    by (simp add: b r funpow_swap1)
qed

lemma Ornaments_for_progress:
  "snd (Ornaments_for (Ornaments_body speed isForming time ornData) is progress)
     = (if is = [] then progress
        else Some ((relax (if isForming then 1 else 0) speed ^^ length is)
                     (case progress of None \<Rightarrow> 0 | Some q \<Rightarrow> q)))"
  by (rule Ornaments_for_final) (rule Ornaments_body_progress)

lemma Ornaments_useFrame_progress:
  "snd (Ornaments_useFrame ty state time ornData (Some mesh) heap) mesh
     = Some ((relax (destOf state) (ornamentSpeed ty) ^^ ornamentCount ty)
               (case heap mesh of None \<Rightarrow> 0 | Some q \<Rightarrow> q))"
proof -
  obtain positions final where
    f: "Ornaments_for (Ornaments_body (ornamentSpeed ty) (state = FORMED) time ornData)
          [0..<ornamentCount ty] (heap mesh) = (positions, final)"
    by (cases "Ornaments_for (Ornaments_body (ornamentSpeed ty) (state = FORMED) time ornData)
          [0..<ornamentCount ty] (heap mesh)")
  have ne: "[0..<ornamentCount ty] \<noteq> []"
    by (simp add: ornamentCount_def)
  have "final = snd (Ornaments_for (Ornaments_body (ornamentSpeed ty) (state = FORMED) time ornData)
          [0..<ornamentCount ty] (heap mesh))"
    by (simp add: f)
  also have "\<dots> = Some ((relax (destOf state) (ornamentSpeed ty) ^^ ornamentCount ty)
               (case heap mesh of None \<Rightarrow> 0 | Some q \<Rightarrow> q))"
    unfolding Ornaments_for_progress using ne by (simp add: destOf_def)
  finally show ?thesis
    by (simp add: Ornaments_useFrame_def f)
qed

text \<open>
  Claim C2, at the ball ornaments. One frame in state FORMED takes the progress of a
  mesh from its start (undefined, read as 0) to \<open>1 - (39 / 40) ^ 50\<close>, more than 0.7,
  where one step of the recurrence with the speed 0.025 of the class gives \<open>1 / 40\<close>.
\<close>

theorem Ornaments_progress_per_frame:
  "snd (Ornaments_useFrame OrnBall FORMED time ornData (Some mesh) (\<lambda>m. None)) mesh
     = Some (1 - (39 / 40) ^ 50)
   \<and> relax 1 0.025 0 = 1 / 40
   \<and> (1::real) - (39 / 40) ^ 50 \<noteq> 1 / 40
   \<and> (7::real) / 10 < 1 - (39 / 40) ^ 50"
proof -
  have "snd (Ornaments_useFrame OrnBall FORMED time ornData (Some mesh) (\<lambda>m. None)) mesh
          = Some ((relax 1 0.025 ^^ 50) 0)"
    by (simp add: Ornaments_useFrame_progress destOf_def ornamentSpeed_def ornamentCount_def)
  moreover have "(relax 1 0.025 ^^ 50) 0 = 1 - (39 / 40) ^ 50"
    by (simp add: relax_funpow)
  moreover have "relax 1 0.025 0 = 1 / 40"
    by (simp add: relax_def)
  moreover have "(1::real) - (39 / 40) ^ 50 \<noteq> 1 / 40" "(7::real) / 10 < 1 - (39 / 40) ^ 50"
    by (simp_all add: power_divide)
  ultimately show ?thesis
    by simp
qed

section \<open>Ownership of the progress scalar\<close>

lemma Ornaments_useFrame_other:
  "other \<noteq> mesh \<Longrightarrow>
     snd (Ornaments_useFrame ty state time ornData (Some mesh) heap) other = heap other"
  by (simp add: Ornaments_useFrame_def split: prod.splits)

lemma Ornaments_useFrame_own:
  "heap1 mesh = heap2 mesh \<Longrightarrow>
     fst (Ornaments_useFrame ty state time ornData (Some mesh) heap1)
       = fst (Ornaments_useFrame ty state time ornData (Some mesh) heap2)
     \<and> snd (Ornaments_useFrame ty state time ornData (Some mesh) heap1) mesh
       = snd (Ornaments_useFrame ty state time ornData (Some mesh) heap2) mesh"
  by (simp add: Ornaments_useFrame_def split: prod.splits)

lemma Topper_useFrame_other:
  "other \<noteq> mesh \<Longrightarrow> snd (Topper_useFrame state time chaos (Some mesh) heap) other = heap other"
  by (simp add: Topper_useFrame_def Let_def)

lemma Topper_useFrame_own:
  "heap1 mesh = heap2 mesh \<Longrightarrow>
     fst (Topper_useFrame state time chaos (Some mesh) heap1)
       = fst (Topper_useFrame state time chaos (Some mesh) heap2)
     \<and> snd (Topper_useFrame state time chaos (Some mesh) heap1) mesh
       = snd (Topper_useFrame state time chaos (Some mesh) heap2) mesh"
  by (simp add: Topper_useFrame_def Let_def)

lemma PolaroidPhotos_useFrame_other:
  "otherRef \<noteq> progressRef \<Longrightarrow>
     PolaroidPhotos_useFrame state progressRef current otherRef = current otherRef"
  by (simp add: PolaroidPhotos_useFrame_def Let_def)

lemma PolaroidPhotos_render_ref:
  "PolaroidPhotos_render photos progressRef = Some children \<Longrightarrow> props \<in> set children \<Longrightarrow>
     prop_progressRef props = progressRef"
  by (auto simp: PolaroidPhotos_render_def split: if_splits)

lemma PolaroidPhoto_useFrame_own:
  "current1 (prop_progressRef props) = current2 (prop_progressRef props) \<Longrightarrow>
     PolaroidPhoto_useFrame props state time current1
       = PolaroidPhoto_useFrame props state time current2"
  by (simp add: PolaroidPhoto_useFrame_def Let_def)

text \<open>
  Claim C9, as the code has it. A progress scalar belongs to a component, not to a
  rendered instance. A frame of an ornaments mesh or of the topper leaves the progress of
  every other mesh as it was, and its positions and its own new progress depend on no
  other mesh's progress. The frame of a photo group writes no other ref; every photo the
  group renders is given the group's one ref, and its position is the interpolation
  between its own chaos and target positions (with the wobble of its own index) at the
  value of that ref, whatever the other refs hold.
\<close>

theorem progress_owned_per_component:
  assumes "other \<noteq> mesh" and "heap1 mesh = heap2 mesh"
    and "otherRef \<noteq> progressRef" and "current1 progressRef = current2 progressRef"
    and "PolaroidPhotos_render photos progressRef = Some children"
    and "props \<in> set children"
  shows "snd (Ornaments_useFrame ty state time ornData (Some mesh) heap1) other = heap1 other
       \<and> fst (Ornaments_useFrame ty state time ornData (Some mesh) heap1)
           = fst (Ornaments_useFrame ty state time ornData (Some mesh) heap2)
       \<and> snd (Ornaments_useFrame ty state time ornData (Some mesh) heap1) mesh
           = snd (Ornaments_useFrame ty state time ornData (Some mesh) heap2) mesh
       \<and> snd (Topper_useFrame state time chaos (Some mesh) heap1) other = heap1 other
       \<and> fst (Topper_useFrame state time chaos (Some mesh) heap1)
           = fst (Topper_useFrame state time chaos (Some mesh) heap2)
       \<and> snd (Topper_useFrame state time chaos (Some mesh) heap1) mesh
           = snd (Topper_useFrame state time chaos (Some mesh) heap2) mesh
       \<and> PolaroidPhotos_useFrame state progressRef current1 otherRef = current1 otherRef
       \<and> prop_progressRef props = progressRef
       \<and> PolaroidPhoto_useFrame props state time current1
           = lerpVectors
               (if state = FORMED then ph_chaosPos (prop_photo props)
                else Vector3 (vx (ph_chaosPos (prop_photo props))
                                + sin (time + real (prop_index props)) * 0.1)
                             (vy (ph_chaosPos (prop_photo props))
                                + cos (time + real (prop_index props)) * 0.1)
                             (vz (ph_chaosPos (prop_photo props))))
               (if state = FORMED
                then Vector3 (vx (ph_targetPos (prop_photo props))
                                + cos (time * 1.2 + real (prop_index props)) * 0.04)
                             (vy (ph_targetPos (prop_photo props))
                                + sin (time * 1.6 + real (prop_index props)) * 0.08)
                             (vz (ph_targetPos (prop_photo props)))
                else ph_targetPos (prop_photo props))
               (current1 progressRef)
       \<and> PolaroidPhoto_useFrame props state time current1
           = PolaroidPhoto_useFrame props state time current2"
proof -
  note o1 = Ornaments_useFrame_other [OF assms(1)]
  note o2 = Ornaments_useFrame_own [of heap1 mesh heap2, OF assms(2), THEN conjunct1]
  note o3 = Ornaments_useFrame_own [of heap1 mesh heap2, OF assms(2), THEN conjunct2]
  note t1 = Topper_useFrame_other [OF assms(1)]
  note t2 = Topper_useFrame_own [of heap1 mesh heap2, OF assms(2), THEN conjunct1]
  note t3 = Topper_useFrame_own [of heap1 mesh heap2, OF assms(2), THEN conjunct2]
  note p1 = PolaroidPhotos_useFrame_other [OF assms(3)]
  have ref: "prop_progressRef props = progressRef"
    using assms(5,6) by (rule PolaroidPhotos_render_ref)
  have pos: "PolaroidPhoto_useFrame props state time current1
           = PolaroidPhoto_useFrame props state time current2"
    by (rule PolaroidPhoto_useFrame_own) (simp only: ref assms(4))
  have posdef: "PolaroidPhoto_useFrame props state time current1
           = lerpVectors
               (if state = FORMED then ph_chaosPos (prop_photo props)
                else Vector3 (vx (ph_chaosPos (prop_photo props))
                                + sin (time + real (prop_index props)) * 0.1)
                             (vy (ph_chaosPos (prop_photo props))
                                + cos (time + real (prop_index props)) * 0.1)
                             (vz (ph_chaosPos (prop_photo props))))
               (if state = FORMED
                then Vector3 (vx (ph_targetPos (prop_photo props))
                                + cos (time * 1.2 + real (prop_index props)) * 0.04)
                             (vy (ph_targetPos (prop_photo props))
                                + sin (time * 1.6 + real (prop_index props)) * 0.08)
                             (vz (ph_targetPos (prop_photo props)))
                else ph_targetPos (prop_photo props))
               (current1 progressRef)"
    unfolding PolaroidPhoto_useFrame_def Let_def ref by (rule refl)
  show ?thesis
    by (rule conjI, rule o1, rule conjI, rule o2, rule conjI, rule o3, rule conjI, rule t1,
        rule conjI, rule t2, rule conjI, rule t3, rule conjI, rule p1, rule conjI, rule ref,
        rule conjI, rule posdef, rule pos)
qed

theorem progress_owned_per_component_witness:
  "snd (Ornaments_useFrame OrnBall FORMED 0 sampleOrnaments (Some 0) sampleHeap) 1 = Some (1 / 4)
   \<and> snd (Topper_useFrame FORMED 0 (Vector3 3 0 0) (Some 0) sampleHeap) 1 = Some (1 / 4)
   \<and> fst (Ornaments_useFrame OrnBall FORMED 0 sampleOrnaments (Some 0) sampleHeap)
       = fst (Ornaments_useFrame OrnBall FORMED 0 sampleOrnaments (Some 0)
                ((\<lambda>m. None)(0 := Some (1 / 2))))
   \<and> PolaroidPhotos_useFrame FORMED 7 sampleRefs 8 = 3
   \<and> PolaroidPhoto_useFrame
         \<lparr>prop_photo = twoPhotos ! 1, prop_index = 1, prop_progressRef = 7\<rparr> FORMED 0 sampleRefs
       = PolaroidPhoto_useFrame
         \<lparr>prop_photo = twoPhotos ! 1, prop_index = 1, prop_progressRef = 7\<rparr> FORMED 0
         ((\<lambda>r. 1)(7 := 1 / 2))"
proof -
  have h1: "(1::nat) \<noteq> 0" and h3: "(8::nat) \<noteq> 7"
    by simp_all
  have h2: "sampleHeap 0 = ((\<lambda>m. None)(0 := Some (1 / 2))) 0"
    by (simp add: sampleHeap_def)
  have h4: "sampleRefs 7 = ((\<lambda>r. 1)(7 := 1 / 2)) (7::nat)"
    by (simp add: sampleRefs_def)
  have h5: "PolaroidPhotos_render twoPhotos 7
      = Some [\<lparr>prop_photo = twoPhotos ! 0, prop_index = 0, prop_progressRef = 7\<rparr>,
              \<lparr>prop_photo = twoPhotos ! 1, prop_index = 1, prop_progressRef = 7\<rparr>]"
    by (simp add: PolaroidPhotos_render_def twoPhotos_def)
  have h6: "\<lparr>prop_photo = twoPhotos ! 1, prop_index = 1, prop_progressRef = 7\<rparr>
      \<in> set [\<lparr>prop_photo = twoPhotos ! 0, prop_index = 0, prop_progressRef = 7\<rparr>,
              \<lparr>prop_photo = twoPhotos ! 1, prop_index = 1, prop_progressRef = 7\<rparr>]"
    by simp
  note inst = progress_owned_per_component
    [where ty = OrnBall and state = FORMED and time = 0 and ornData = sampleOrnaments
       and chaos = "Vector3 3 0 0" and other = 1 and mesh = 0
       and ?heap1.0 = sampleHeap and ?heap2.0 = "(\<lambda>m. None)(0 := Some (1 / 2))"
       and otherRef = 8 and progressRef = 7
       and ?current1.0 = sampleRefs and ?current2.0 = "(\<lambda>r. 1)(7 := 1 / 2)"
       and photos = twoPhotos
       and children = "[\<lparr>prop_photo = twoPhotos ! 0, prop_index = 0, prop_progressRef = 7\<rparr>,
              \<lparr>prop_photo = twoPhotos ! 1, prop_index = 1, prop_progressRef = 7\<rparr>]"
       and props = "\<lparr>prop_photo = twoPhotos ! 1, prop_index = 1, prop_progressRef = 7\<rparr>",
     OF h1 h2 h3 h4 h5 h6]
  have v: "sampleHeap 1 = Some (1 / 4)" "sampleRefs 8 = 3"
    by (simp_all add: sampleHeap_def sampleRefs_def)
  from inst show ?thesis
    unfolding v by blast
qed

lemma Ornaments_body_vx:
  "vx (fst (Ornaments_body speed True time ornData i progress))
     = vx (chaosPos ornData ! i)
       + (vx (targetPos ornData ! i) - vx (chaosPos ornData ! i))
         * relax 1 speed (case progress of None \<Rightarrow> 0 | Some q \<Rightarrow> q)"
  by (simp add: Ornaments_body_def Let_def lerpVectors_def relax_def)

lemma sampleOrnaments_nth:
  "vx (chaosPos sampleOrnaments ! 0) = 0" "vx (chaosPos sampleOrnaments ! 1) = 0"
  "vx (targetPos sampleOrnaments ! 0) = 1" "vx (targetPos sampleOrnaments ! 1) = 1"
  by (simp_all add: sampleOrnaments_def)

lemma relax_ball_steps:
  "relax 1 (ornamentSpeed OrnBall) 0 = 1 / 40"
  "relax 1 (ornamentSpeed OrnBall) (1 / 40) = 79 / 1600"
  by (simp_all add: relax_def ornamentSpeed_def)

text \<open>
  The claim as stated fails inside one mesh. Instance 1 reads the progress \<open>1 / 40\<close> and
  is placed at \<open>x = 1 / 40\<close> when the loop body of instance 0 has not run, and reads
  \<open>79 / 1600\<close> and is placed at \<open>x = 79 / 1600\<close> when it has: the two instances share the one
  scalar of their mesh.
\<close>

theorem shared_progress_counterexample:
  "snd (Ornaments_body (ornamentSpeed OrnBall) True 0 sampleOrnaments 1 None) = Some (1 / 40)
   \<and> snd (Ornaments_body (ornamentSpeed OrnBall) True 0 sampleOrnaments 1
            (snd (Ornaments_body (ornamentSpeed OrnBall) True 0 sampleOrnaments 0 None)))
       = Some (79 / 1600)
   \<and> vx (fst (Ornaments_body (ornamentSpeed OrnBall) True 0 sampleOrnaments 1 None)) = 1 / 40
   \<and> vx (fst (Ornaments_body (ornamentSpeed OrnBall) True 0 sampleOrnaments 1
            (snd (Ornaments_body (ornamentSpeed OrnBall) True 0 sampleOrnaments 0 None))))
       = 79 / 1600"
  by (simp only: Ornaments_body_progress Ornaments_body_vx sampleOrnaments_nth relax_ball_steps
        if_True option.case)
     simp

section \<open>Photo ornaments from the manifest\<close>

lemma preload_filter: "preload imageLoads cs = filter imageLoads cs"
  by (induction cs) (simp_all add: preload_def)

lemma length_photosFor: "length (photosFor n i items g) = length items"
  by (induction items arbitrary: i g) (simp_all split: prod.splits)

lemma length_photosMemo: "length (photosMemo items g) = length items"
  by (simp add: photosMemo_def length_photosFor)

lemma getConePointAtY_vy:
  "minY \<le> y \<Longrightarrow> y \<le> maxY \<Longrightarrow>
     vy (fst (getConePointAtY y maxRadius g)) + yShift = y"
  by (simp add: getConePointAtY_def Math_random_def Let_def MathUtils_clamp_def minY_def maxY_def
        treeHeight_def photo_verticalBias_def yShift_def)

lemma MathUtils_clamp_range:
  "lo \<le> hi \<Longrightarrow> lo \<le> MathUtils_clamp v lo hi \<and> MathUtils_clamp v lo hi \<le> hi"
  by (simp add: MathUtils_clamp_def)

lemma photoHeight_range: "minY \<le> photoHeight n i u \<and> photoHeight n i u \<le> maxY"
proof -
  have "minY \<le> maxY"
    by (simp add: minY_def maxY_def treeHeight_def)
  then show ?thesis
    unfolding photoHeight_def Let_def by (rule MathUtils_clamp_range)
qed

lemma vy_pushOutward: "vy (fst (pushOutward t g)) = vy t"
  by (simp add: pushOutward_def Math_random_def Let_def)

lemma makePhoto_height:
  "vy (ph_targetPos (fst (makePhoto n i item g))) = photoHeight n i (g 0)"
proof -
  obtain t0 g2 where
    c: "getConePointAtY (photoHeight n i (g 0)) (treeRadius * 0.9) (\<lambda>n. g (Suc n)) = (t0, g2)"
    by (cases "getConePointAtY (photoHeight n i (g 0)) (treeRadius * 0.9) (\<lambda>n. g (Suc n))")
  obtain t g4 where p: "pushOutward (Vector3 (vx t0) (vy t0 + yShift) (vz t0)) g2 = (t, g4)"
    by (cases "pushOutward (Vector3 (vx t0) (vy t0 + yShift) (vz t0)) g2")
  have r: "minY \<le> photoHeight n i (g 0)" "photoHeight n i (g 0) \<le> maxY"
    using photoHeight_range [of n i "g 0"] by simp_all
  have h1: "vy t0 + yShift = photoHeight n i (g 0)"
    using getConePointAtY_vy [OF r, of "treeRadius * 0.9" "\<lambda>n. g (Suc n)"]
    by (simp only: c fst_conv)
  have h2: "vy t = vy t0 + yShift"
    using vy_pushOutward [of "Vector3 (vx t0) (vy t0 + yShift) (vz t0)" g2]
    by (simp only: p fst_conv Vector3.sel)
  obtain ch g6 where s: "getRandomSpherePoint 18 (\<lambda>m. g4 (Suc m)) = (ch, g6)"
    by (cases "getRandomSpherePoint 18 (\<lambda>m. g4 (Suc m))")
  have tp: "ph_targetPos (fst (makePhoto n i item g)) = t"
    by (simp only: makePhoto_def Math_random_def c p s prod.case fst_conv Photo.select_convs)
  from h1 h2 show ?thesis
    by (simp only: tp)
qed

lemma unit_draws_shift: "unit_draws g \<Longrightarrow> unit_draws (\<lambda>m. g (Suc m))"
  by (simp add: unit_draws_def)

lemma unit_draws_getConePointAtY:
  "unit_draws g \<Longrightarrow> unit_draws (snd (getConePointAtY y r g))"
  by (simp add: getConePointAtY_def Math_random_def Let_def unit_draws_def)

lemma unit_draws_getRandomSpherePoint:
  "unit_draws g \<Longrightarrow> unit_draws (snd (getRandomSpherePoint r g))"
  by (simp add: getRandomSpherePoint_def Math_random_def Let_def unit_draws_def)

lemma unit_draws_pushOutward: "unit_draws g \<Longrightarrow> unit_draws (snd (pushOutward t g))"
  by (simp add: pushOutward_def Math_random_def Let_def unit_draws_def)

lemma unit_draws_makePhoto:
  assumes u: "unit_draws g"
  shows "unit_draws (snd (makePhoto n i item g))"
proof -
  obtain t0 g2 where
    c: "getConePointAtY (photoHeight n i (g 0)) (treeRadius * 0.9) (\<lambda>n. g (Suc n)) = (t0, g2)"
    by (cases "getConePointAtY (photoHeight n i (g 0)) (treeRadius * 0.9) (\<lambda>n. g (Suc n))")
  have u2: "unit_draws g2"
    using unit_draws_getConePointAtY [OF unit_draws_shift [OF u],
        of "photoHeight n i (g 0)" "treeRadius * 0.9"]
    unfolding c snd_conv .
  obtain t g4 where p: "pushOutward (Vector3 (vx t0) (vy t0 + yShift) (vz t0)) g2 = (t, g4)"
    by (cases "pushOutward (Vector3 (vx t0) (vy t0 + yShift) (vz t0)) g2")
  have u4: "unit_draws g4"
    using unit_draws_pushOutward [OF u2, of "Vector3 (vx t0) (vy t0 + yShift) (vz t0)"]
    unfolding p snd_conv .
  obtain ch g6 where s: "getRandomSpherePoint 18 (\<lambda>m. g4 (Suc m)) = (ch, g6)"
    by (cases "getRandomSpherePoint 18 (\<lambda>m. g4 (Suc m))")
  have "unit_draws g6"
    using unit_draws_getRandomSpherePoint [OF unit_draws_shift [OF u4], of 18]
    unfolding s snd_conv .
  moreover have "snd (makePhoto n i item g) = g6"
    by (simp only: makePhoto_def Math_random_def c p s prod.case snd_conv)
  ultimately show ?thesis by simp
qed

lemma MathUtils_clamp_id: "lo \<le> v \<Longrightarrow> v \<le> hi \<Longrightarrow> MathUtils_clamp v lo hi = v"
  by (simp add: MathUtils_clamp_def)

lemma photoHeight_two:
  assumes "0 \<le> u" and "u < 1"
  shows "photoHeight 2 0 u = 3.05 + 1.2 * u" and "photoHeight 2 1 u = 6.75 + 1.2 * u"
proof -
  have v0: "minY + (maxY - minY) * ((real 0 + 0.5) / real 2) + (u - 0.5) * 1.2 = 3.05 + 1.2 * u"
    by (simp add: minY_def maxY_def treeHeight_def field_simps)
  have v1: "minY + (maxY - minY) * ((real 1 + 0.5) / real 2) + (u - 0.5) * 1.2 = 6.75 + 1.2 * u"
    by (simp add: minY_def maxY_def treeHeight_def field_simps)
  have b0: "minY \<le> 3.05 + 1.2 * u" "3.05 + 1.2 * u \<le> maxY"
    and b1: "minY \<le> 6.75 + 1.2 * u" "6.75 + 1.2 * u \<le> maxY"
    using assms by (simp_all add: minY_def maxY_def treeHeight_def)
  show "photoHeight 2 0 u = 3.05 + 1.2 * u"
    unfolding photoHeight_def Let_def v0 by (rule MathUtils_clamp_id [OF b0])
  show "photoHeight 2 1 u = 6.75 + 1.2 * u"
    unfolding photoHeight_def Let_def v1 by (rule MathUtils_clamp_id [OF b1])
qed

lemma ph_id_makePhoto: "ph_id (fst (makePhoto n i item g)) = item_id item"
  by (simp add: makePhoto_def split: prod.splits)

lemma ph_id_photosFor: "map ph_id (photosFor n i items g) = map item_id items"
proof (induction items arbitrary: i g)
  case Nil
  then show ?case by simp
next
  case (Cons item rest)
  obtain photo g1 where m: "makePhoto n i item g = (photo, g1)"
    by (cases "makePhoto n i item g")
  have "ph_id photo = item_id item"
    using ph_id_makePhoto [of n i item g] by (simp only: m fst_conv)
  then show ?case
    by (simp add: m Cons.IH)
qed

lemma photosFor_two:
  "photosFor n 0 [a, b] g
     = [fst (makePhoto n 0 a g), fst (makePhoto n 1 b (snd (makePhoto n 0 a g)))]"
proof -
  obtain q0 h0 where m0: "makePhoto n 0 a g = (q0, h0)"
    by (cases "makePhoto n 0 a g")
  obtain q1 h1 where m1: "makePhoto n (Suc 0) b h0 = (q1, h1)"
    by (cases "makePhoto n (Suc 0) b h0")
  show ?thesis
    by (simp add: m0 m1)
qed

lemma photosMemo_two:
  "photosMemo [a, b] g
     = [fst (makePhoto 2 0 a g), fst (makePhoto 2 1 b (snd (makePhoto 2 0 a g)))]"
proof -
  have l: "length [a, b] = 2"
    by simp
  show ?thesis
    unfolding photosMemo_def l by (rule photosFor_two)
qed

lemma inBand_two:
  "inBand 2 0 y \<longleftrightarrow> 1.8 \<le> y \<and> y \<le> 5.5"
  "inBand 2 (Suc 0) y \<longleftrightarrow> 5.5 \<le> y \<and> y \<le> 9.2"
  by (simp_all add: inBand_def minY_def maxY_def treeHeight_def)

lemma candidatesFrom_strings:
  "candidatesFrom resolveURL i (map JString names)
     = Inr (map (\<lambda>(idx, fileName).
                   \<lparr>item_id = idx + 1,
                    item_src = resolveURL (''./figs-jpeg/'' @ fileName),
                    item_caption = stripExtension fileName\<rparr>)
                (enumerate i names))"
  by (induction names arbitrary: i) simp_all

lemma candidates_strings_ids:
  "\<exists>cs. candidates resolveURL (map JString names) = Inr cs
        \<and> length cs = length names
        \<and> map item_id cs = [1..<Suc (length names)]"
proof -
  have "map fst (enumerate 0 names) = [0..<length names]"
    by simp
  then have "map (\<lambda>x. fst x + 1) (enumerate 0 names) = map Suc [0..<length names]"
    by (metis (no_types, lifting) Suc_eq_plus1 map_map comp_def map_eq_conv)
  then have "map (\<lambda>x. fst x + 1) (enumerate 0 names) = [1..<Suc (length names)]"
    by (simp add: map_Suc_upt)
  then show ?thesis
    by (simp add: candidates_def candidatesFrom_strings comp_def case_prod_beta)
qed

lemma candidatesFrom_non_string:
  "e \<in> set files \<Longrightarrow> (\<forall>s. e \<noteq> JString s) \<Longrightarrow> candidatesFrom resolveURL i files = Inl TypeError"
proof (induction files arbitrary: i)
  case Nil
  then show ?case by simp
next
  case (Cons f rest)
  show ?case
  proof (cases f)
    case (JString s)
    with Cons.prems have "e \<in> set rest"
      by auto
    then have "candidatesFrom resolveURL (Suc i) rest = Inl TypeError"
      using Cons.prems(2) by (rule Cons.IH)
    with JString show ?thesis by simp
  qed simp_all
qed

lemma photos_non_string:
  assumes "e \<in> set (loadManifest outcome)" and "\<forall>s. e \<noteq> JString s"
  shows "PolaroidPhotos_photos outcome resolveURL imageLoads g = Inl TypeError"
  using candidatesFrom_non_string [OF assms, of resolveURL 0]
  by (simp add: PolaroidPhotos_photos_def candidates_def)

lemma photos_empty:
  "loadManifest outcome = [] \<Longrightarrow> PolaroidPhotos_photos outcome resolveURL imageLoads g = Inr []"
  by (simp add: PolaroidPhotos_photos_def candidates_def preload_filter photosMemo_def)

lemma loadManifest_empty:
  "loadManifest FetchRejects = []"
  "loadManifest (Response False body) = []"
  "loadManifest (Response True None) = []"
  "loadManifest (Response True (Some JNull)) = []"
  "loadManifest (Response True (Some (JBool b))) = []"
  "loadManifest (Response True (Some (JNumber n))) = []"
  "loadManifest (Response True (Some (JString s))) = []"
  "map_of (rev members) ''files'' = None \<Longrightarrow> loadManifest (Response True (Some (JObject members))) = []"
  "(\<forall>entries. map_of (rev members) ''files'' \<noteq> Some (JArray entries)) \<Longrightarrow>
     loadManifest (Response True (Some (JObject members))) = []"
  by (auto simp: loadManifest_def manifestList_def split: option.splits json.splits)

lemma loadManifest_array:
  "loadManifest (Response True (Some (JArray entries))) = entries"
  "loadManifest (Response True (Some (JObject [(''files'', JArray entries)]))) = entries"
  by (simp_all add: loadManifest_def manifestList_def)

text \<open>
  The part of claim C8 that the code keeps. A manifest of three file names (as an array or
  under \<^verbatim>\<open>files\<close>) of which exactly one image fails to load gives exactly two photos, the
  two whose images load, rendered as two photo ornaments; with draws in \<open>[0, 1)\<close> the first
  hangs in the lower and the second in the upper of the two height bands, and neither in
  the other's band. A fetch that rejects, a response that is not ok, a body that is not
  JSON, and a JSON value that is neither an array nor an object with an array \<^verbatim>\<open>files\<close> give
  no photo, and the group renders nothing.
\<close>

theorem photo_manifest_loading:
  assumes "unit_draws g"
    and "outcome = Response True (Some (JArray (map JString [f1, f2, f3])))
         \<or> outcome = Response True
                        (Some (JObject [(''files'', JArray (map JString [f1, f2, f3]))]))"
    and "candidates resolveURL (map JString [f1, f2, f3]) = Inr cs"
    and "length (filter (\<lambda>c. \<not> imageLoads c) cs) = 1"
  shows "(\<exists>p0 p1. PolaroidPhotos_photos outcome resolveURL imageLoads g = Inr [p0, p1]
            \<and> (\<exists>children. PolaroidPhotos_render [p0, p1] progressRef = Some children
                  \<and> length children = 2)
            \<and> inBand 2 0 (vy (ph_targetPos p0)) \<and> \<not> inBand 2 1 (vy (ph_targetPos p0))
            \<and> inBand 2 1 (vy (ph_targetPos p1)) \<and> \<not> inBand 2 0 (vy (ph_targetPos p1))
            \<and> map ph_id [p0, p1] = map item_id (filter imageLoads cs))
       \<and> PolaroidPhotos_photos FetchRejects resolveURL imageLoads g = Inr []
       \<and> PolaroidPhotos_photos (Response False body) resolveURL imageLoads g = Inr []
       \<and> PolaroidPhotos_photos (Response True None) resolveURL imageLoads g = Inr []
       \<and> PolaroidPhotos_photos (Response True (Some JNull)) resolveURL imageLoads g = Inr []
       \<and> PolaroidPhotos_photos (Response True (Some (JBool flag))) resolveURL imageLoads g = Inr []
       \<and> PolaroidPhotos_photos (Response True (Some (JNumber n))) resolveURL imageLoads g = Inr []
       \<and> PolaroidPhotos_photos (Response True (Some (JString s))) resolveURL imageLoads g = Inr []
       \<and> PolaroidPhotos_photos (Response True (Some (JObject []))) resolveURL imageLoads g = Inr []
       \<and> PolaroidPhotos_photos (Response True (Some (JObject [(''files'', JString s)])))
             resolveURL imageLoads g = Inr []
       \<and> PolaroidPhotos_render [] progressRef = None"
proof -
  have files: "loadManifest outcome = map JString [f1, f2, f3]"
    using assms(2) loadManifest_array [of "map JString [f1, f2, f3]"] by auto
  have "length cs = 3"
    using candidates_strings_ids [of resolveURL "[f1, f2, f3]"] assms(3) by auto
  moreover have "length (filter imageLoads cs) + length (filter (\<lambda>c. \<not> imageLoads c) cs)
        = length cs"
    by (rule sum_length_filter_compl)
  ultimately have "length (filter imageLoads cs) = 2"
    using assms(4) by simp
  then obtain it0 it1 where items: "filter imageLoads cs = [it0, it1]"
    by (auto simp: length_Suc_conv numeral_2_eq_2)
  define p0 where "p0 = fst (makePhoto 2 0 it0 g)"
  define g' where "g' = snd (makePhoto 2 0 it0 g)"
  define p1 where "p1 = fst (makePhoto 2 1 it1 g')"
  have c3: "candidates resolveURL (loadManifest outcome) = Inr cs"
    by (simp only: files assms(3))
  have photos: "PolaroidPhotos_photos outcome resolveURL imageLoads g = Inr [p0, p1]"
    unfolding PolaroidPhotos_photos_def c3
    by (simp add: preload_filter items photosMemo_two p0_def p1_def g'_def)
  have u': "unit_draws g'"
    unfolding g'_def using assms(1) by (rule unit_draws_makePhoto)
  have d0: "0 \<le> g 0" "g 0 < 1" and d1: "0 \<le> g' 0" "g' 0 < 1"
    using assms(1) u' by (simp_all add: unit_draws_def)
  have y0: "vy (ph_targetPos p0) = 3.05 + 1.2 * g 0"
    by (simp only: p0_def makePhoto_height photoHeight_two(1) [OF d0])
  have y1: "vy (ph_targetPos p1) = 6.75 + 1.2 * g' 0"
    by (simp only: p1_def makePhoto_height photoHeight_two(2) [OF d1])
  have bands: "inBand 2 0 (vy (ph_targetPos p0))" "\<not> inBand 2 1 (vy (ph_targetPos p0))"
    "inBand 2 1 (vy (ph_targetPos p1))" "\<not> inBand 2 0 (vy (ph_targetPos p1))"
    using d0 d1 by (simp_all add: inBand_two y0 y1)
  have render: "\<exists>children. PolaroidPhotos_render [p0, p1] progressRef = Some children
                  \<and> length children = 2"
    by (simp add: PolaroidPhotos_render_def)
  have ids: "map ph_id [p0, p1] = map item_id (filter imageLoads cs)"
    by (simp add: items p0_def p1_def ph_id_makePhoto)
  have none: "PolaroidPhotos_photos FetchRejects resolveURL imageLoads g = Inr []"
    "PolaroidPhotos_photos (Response False body) resolveURL imageLoads g = Inr []"
    "PolaroidPhotos_photos (Response True None) resolveURL imageLoads g = Inr []"
    "PolaroidPhotos_photos (Response True (Some JNull)) resolveURL imageLoads g = Inr []"
    "PolaroidPhotos_photos (Response True (Some (JBool flag))) resolveURL imageLoads g = Inr []"
    "PolaroidPhotos_photos (Response True (Some (JNumber n))) resolveURL imageLoads g = Inr []"
    "PolaroidPhotos_photos (Response True (Some (JString s))) resolveURL imageLoads g = Inr []"
    "PolaroidPhotos_photos (Response True (Some (JObject []))) resolveURL imageLoads g = Inr []"
    "PolaroidPhotos_photos (Response True (Some (JObject [(''files'', JString s)])))
             resolveURL imageLoads g = Inr []"
    by (rule photos_empty, simp add: loadManifest_def manifestList_def)+
  have rnone: "PolaroidPhotos_render [] progressRef = None"
    by (simp add: PolaroidPhotos_render_def)
  from photos render bands ids none rnone show ?thesis
    by blast
qed

theorem photo_manifest_loading_witness:
  "(\<exists>p0 p1. PolaroidPhotos_photos (Response True (Some (JArray (map JString threeFiles))))
               (\<lambda>s. s) (\<lambda>c. item_id c \<noteq> 2) sampleDraws = Inr [p0, p1]
            \<and> inBand 2 0 (vy (ph_targetPos p0)) \<and> inBand 2 1 (vy (ph_targetPos p1))
            \<and> map ph_id [p0, p1] = [1, 3])
   \<and> PolaroidPhotos_photos FetchRejects (\<lambda>s. s) (\<lambda>c. item_id c \<noteq> 2) sampleDraws = Inr []"
proof -
  have h2: "Response True (Some (JArray (map JString threeFiles)))
              = Response True (Some (JArray (map JString [''a.jpg'', ''b.jpg'', ''c.jpg''])))
            \<or> Response True (Some (JArray (map JString threeFiles)))
              = Response True (Some (JObject [(''files'',
                    JArray (map JString [''a.jpg'', ''b.jpg'', ''c.jpg'']))]))"
    by (simp add: threeFiles_def)
  have h3: "candidates (\<lambda>s. s) (map JString [''a.jpg'', ''b.jpg'', ''c.jpg''])
      = Inr [\<lparr>item_id = 1, item_src = ''./figs-jpeg/a.jpg'', item_caption = ''a''\<rparr>,
             \<lparr>item_id = 2, item_src = ''./figs-jpeg/b.jpg'', item_caption = ''b''\<rparr>,
             \<lparr>item_id = 3, item_src = ''./figs-jpeg/c.jpg'', item_caption = ''c''\<rparr>]"
    by (simp add: candidates_def stripExtension_def)
  have h4: "length (filter (\<lambda>c. \<not> item_id c \<noteq> 2)
              [\<lparr>item_id = 1, item_src = ''./figs-jpeg/a.jpg'', item_caption = ''a''\<rparr>,
               \<lparr>item_id = 2, item_src = ''./figs-jpeg/b.jpg'', item_caption = ''b''\<rparr>,
               \<lparr>item_id = 3, item_src = ''./figs-jpeg/c.jpg'', item_caption = ''c''\<rparr>]) = 1"
    by simp
  have ids: "map item_id (filter (\<lambda>c. item_id c \<noteq> 2)
              [\<lparr>item_id = 1, item_src = ''./figs-jpeg/a.jpg'', item_caption = ''a''\<rparr>,
               \<lparr>item_id = 2, item_src = ''./figs-jpeg/b.jpg'', item_caption = ''b''\<rparr>,
               \<lparr>item_id = 3, item_src = ''./figs-jpeg/c.jpg'', item_caption = ''c''\<rparr>]) = [1, 3]"
    by simp
  note inst = photo_manifest_loading [OF unit_draws_sampleDraws h2 h3 h4]
  from inst obtain p0 p1 where
    p: "PolaroidPhotos_photos (Response True (Some (JArray (map JString threeFiles))))
               (\<lambda>s. s) (\<lambda>c. item_id c \<noteq> 2) sampleDraws = Inr [p0, p1]"
      "inBand 2 0 (vy (ph_targetPos p0))" "inBand 2 1 (vy (ph_targetPos p1))"
      "map ph_id [p0, p1] = map item_id (filter (\<lambda>c. item_id c \<noteq> 2)
              [\<lparr>item_id = 1, item_src = ''./figs-jpeg/a.jpg'', item_caption = ''a''\<rparr>,
               \<lparr>item_id = 2, item_src = ''./figs-jpeg/b.jpg'', item_caption = ''b''\<rparr>,
               \<lparr>item_id = 3, item_src = ''./figs-jpeg/c.jpg'', item_caption = ''c''\<rparr>])"
    by blast
  have i: "map ph_id [p0, p1] = [1, 3]"
    by (simp only: p(4) ids)
  have e: "PolaroidPhotos_photos FetchRejects (\<lambda>s. s) (\<lambda>c. item_id c \<noteq> 2) sampleDraws = Inr []"
    using inst by blast
  show ?thesis
  proof (intro conjI exI)
    show "PolaroidPhotos_photos (Response True (Some (JArray (map JString threeFiles))))
               (\<lambda>s. s) (\<lambda>c. item_id c \<noteq> 2) sampleDraws = Inr [p0, p1]"
      by (rule p(1))
    show "inBand 2 0 (vy (ph_targetPos p0))"
      by (rule p(2))
    show "inBand 2 1 (vy (ph_targetPos p1))"
      by (rule p(3))
    show "map ph_id [p0, p1] = [1, 3]"
      by (rule i)
    show "PolaroidPhotos_photos FetchRejects (\<lambda>s. s) (\<lambda>c. item_id c \<noteq> 2) sampleDraws = Inr []"
      by (rule e)
  qed
qed

text \<open>
  Claim C8, at an invalid manifest. A manifest that is an array (or has an array
  \<^verbatim>\<open>files\<close>) with an entry that is not a string passes the checks of the first effect; the
  second effect then throws a TypeError that nothing catches, where the claim promises no
  photo and no crash.
\<close>

theorem invalid_manifest_throws:
  "PolaroidPhotos_photos (Response True (Some (JArray [JNumber 1, JNumber 2, JNumber 3])))
       resolveURL imageLoads g = Inl TypeError
   \<and> PolaroidPhotos_photos
       (Response True (Some (JObject [(''files'', JArray [JString ''a.jpg'', JNull])])))
       resolveURL imageLoads g = Inl TypeError"
  by (simp add: PolaroidPhotos_photos_def loadManifest_def manifestList_def candidates_def)

end
